theory Spec2Isabelle
  imports Complex_Main "HOL-Library.Word" "HOL-Library.AList" "HOL-Library.Log_Nat"
begin

unbundle bit_operations_syntax

section \<open>JavaScript values of the plugin sandbox\<close>

text \<open>
  The plugin (\<^verbatim>\<open>packages/figma-plugin/code.js\<close>) reads loosely typed properties of
  Figma nodes. A property value is any JavaScript value; \<^verbatim>\<open>figma.mixed\<close> is a Symbol.
  A number is the real it denotes (the IEEE specials NaN and the infinities are not
  values of the model); where the code computes with numbers, the result is rounded as
  binary64 arithmetic rounds it (\<open>fl\<close> below). Strings are character lists, objects
  association lists of their own properties.
\<close>

datatype jsval =
    JUndefined
  | JNull
  | JBool bool
  | JNum real
  | JBigInt int
  | JStr string
  | JSymbol string
  | JFun string
  | JArr "jsval list"
  | JObj "(string \<times> jsval) list"

definition figma_mixed :: jsval where
  "figma_mixed = JSymbol ''figma.mixed''"

text \<open>The \<^verbatim>\<open>typeof\<close> operator.\<close>

fun typeof :: "jsval \<Rightarrow> string" where
  "typeof JUndefined = ''undefined''"
| "typeof JNull = ''object''"
| "typeof (JBool b) = ''boolean''"
| "typeof (JNum r) = ''number''"
| "typeof (JBigInt n) = ''bigint''"
| "typeof (JStr s) = ''string''"
| "typeof (JSymbol d) = ''symbol''"
| "typeof (JFun f) = ''function''"
| "typeof (JArr xs) = ''object''"
| "typeof (JObj ps) = ''object''"

text \<open>\<^verbatim>\<open>Array.isArray\<close>.\<close>

fun isArray :: "jsval \<Rightarrow> bool" where
  "isArray (JArr xs) = True"
| "isArray v = False"

text \<open>Truthiness, as tested by \<^verbatim>\<open>if (v)\<close>, \<^verbatim>\<open>!v\<close>, \<^verbatim>\<open>a && b\<close> and \<^verbatim>\<open>a || b\<close>.\<close>

fun truthy :: "jsval \<Rightarrow> bool" where
  "truthy JUndefined = False"
| "truthy JNull = False"
| "truthy (JBool b) = b"
| "truthy (JNum r) = (r \<noteq> 0)"
| "truthy (JBigInt n) = (n \<noteq> 0)"
| "truthy (JStr s) = (s \<noteq> [])"
| "truthy (JSymbol d) = True"
| "truthy (JFun f) = True"
| "truthy (JArr xs) = True"
| "truthy (JObj ps) = True"

section \<open>Value normalizer\<close>

text \<open>
  \<^verbatim>\<open>safe(val, fallback)\<close> and its four typed variants. A call that omits the fallback
  passes \<^verbatim>\<open>undefined\<close>, here \<^const>\<open>JUndefined\<close>. None of the five bodies contains an
  operation that can throw (\<^verbatim>\<open>===\<close>, \<^verbatim>\<open>typeof\<close> and \<^verbatim>\<open>Array.isArray\<close> are defined on
  every value), so they are plain total functions.
\<close>

definition safe :: "jsval \<Rightarrow> jsval \<Rightarrow> jsval" where
  "safe val fallback =
     (if val = JNull \<or> val = JUndefined then (if fallback \<noteq> JUndefined then fallback else JNull)
      else if typeof val = ''symbol'' then (if fallback \<noteq> JUndefined then fallback else JNull)
      else val)"

definition safeNum :: "jsval \<Rightarrow> jsval \<Rightarrow> jsval" where
  "safeNum val fallback =
     (let v = safe val JUndefined
      in if typeof v = ''number'' then v
         else (if fallback \<noteq> JUndefined then fallback else JNum 0))"

definition safeStr :: "jsval \<Rightarrow> jsval \<Rightarrow> jsval" where
  "safeStr val fallback =
     (let v = safe val JUndefined
      in if typeof v = ''string'' then v
         else (if fallback \<noteq> JUndefined then fallback else JStr ''''))"

definition safeBool :: "jsval \<Rightarrow> jsval \<Rightarrow> jsval" where
  "safeBool val fallback =
     (let v = safe val JUndefined
      in if typeof v = ''boolean'' then v
         else (if fallback \<noteq> JUndefined then fallback else JBool False))"

definition safeArr :: "jsval \<Rightarrow> jsval" where
  "safeArr val = (let v = safe val JUndefined in if isArray v then v else JArr [])"

section \<open>Image format detection\<close>

text \<open>
  \<^verbatim>\<open>detectImageFormat(bytes)\<close> on a \<^verbatim>\<open>Uint8Array\<close>; \<^const>\<open>None\<close> stands for a
  \<^verbatim>\<open>null\<close> or \<^verbatim>\<open>undefined\<close> argument (the \<^verbatim>\<open>!bytes\<close> test). All indexed reads
  happen after the length test, so they are in range.
\<close>

type_synonym byte = "8 word"

definition detectImageFormat :: "byte list option \<Rightarrow> string" where
  "detectImageFormat bytes =
     (case bytes of
        None \<Rightarrow> ''png''
      | Some bs \<Rightarrow>
          if length bs < 12 then ''png''
          else if bs ! 0 = 0x89 \<and> bs ! 1 = 0x50 \<and> bs ! 2 = 0x4E \<and> bs ! 3 = 0x47 then ''png''
          else if bs ! 0 = 0xFF \<and> bs ! 1 = 0xD8 then ''jpg''
          else if bs ! 0 = 0x47 \<and> bs ! 1 = 0x49 \<and> bs ! 2 = 0x46 then ''gif''
          else if bs ! 8 = 0x57 \<and> bs ! 9 = 0x45 \<and> bs ! 10 = 0x42 \<and> bs ! 11 = 0x50 then ''webp''
          else ''png'')"

text \<open>
  The signatures named by the specification, as predicates on a byte array:
  \<open>starts_with sig bs\<close> says that \<open>bs\<close> begins with the bytes \<open>sig\<close>, and
  \<open>tag_at off sig bs\<close> that the bytes \<open>sig\<close> stand at offset \<open>off\<close>.
\<close>

definition starts_with :: "byte list \<Rightarrow> byte list \<Rightarrow> bool" where
  "starts_with sig bs = (take (length sig) bs = sig)"

definition tag_at :: "nat \<Rightarrow> byte list \<Rightarrow> byte list \<Rightarrow> bool" where
  "tag_at off sig bs = (take (length sig) (drop off bs) = sig)"

definition PNG_MAGIC :: "byte list" where
  "PNG_MAGIC = [0x89, 0x50, 0x4E, 0x47]"

definition JPEG_SOI :: "byte list" where
  "JPEG_SOI = [0xFF, 0xD8]"

definition GIF_HEADER :: "byte list" where
  "GIF_HEADER = [0x47, 0x49, 0x46]"

definition WEBP_TAG :: "byte list" where
  "WEBP_TAG = [0x57, 0x45, 0x42, 0x50]"

section \<open>Reading properties\<close>

text \<open>
  A property read \<^verbatim>\<open>v.k\<close>. On \<^verbatim>\<open>null\<close> and \<^verbatim>\<open>undefined\<close> it throws a TypeError;
  on every other value it yields the own property, or \<^verbatim>\<open>undefined\<close>. \<open>jsget\<close> is the
  read on a receiver that the source has already tested (\<^verbatim>\<open>if (!p ...) return\<close>,
  \<^verbatim>\<open>f && f.type\<close>); \<open>jsget_checked\<close> is the unguarded read.
\<close>

datatype js_error = TypeError

fun jsget :: "jsval \<Rightarrow> string \<Rightarrow> jsval" where
  "jsget (JObj ps) k = (case map_of ps k of None \<Rightarrow> JUndefined | Some v \<Rightarrow> v)"
| "jsget (JArr xs) k = (if k = ''length'' then JNum (real (length xs)) else JUndefined)"
| "jsget (JStr s) k = (if k = ''length'' then JNum (real (length s)) else JUndefined)"
| "jsget v k = JUndefined"

definition jsget_checked :: "jsval \<Rightarrow> string \<Rightarrow> js_error + jsval" where
  "jsget_checked v k = (if v = JNull \<or> v = JUndefined then Inl TypeError else Inr (jsget v k))"

text \<open>The elements of an array, as visited by \<^verbatim>\<open>for (i = 0; i < a.length; i++) a[i]\<close>
  and by \<^verbatim>\<open>a.map\<close>, \<^verbatim>\<open>a.filter\<close>. It is applied to results of \<^const>\<open>safeArr\<close> only.\<close>

fun elems :: "jsval \<Rightarrow> jsval list" where
  "elems (JArr xs) = xs"
| "elems v = []"

text \<open>Projections for results of the typed normalizers called with a fallback of the
  same kind, which are always of that kind.\<close>

fun str_of :: "jsval \<Rightarrow> string" where
  "str_of (JStr s) = s"
| "str_of v = []"

fun num_of :: "jsval \<Rightarrow> real" where
  "num_of (JNum r) = r"
| "num_of v = 0"

fun bool_of :: "jsval \<Rightarrow> bool" where
  "bool_of (JBool b) = b"
| "bool_of v = False"

text \<open>A callback applied to each element in turn, stopping at the first exception.\<close>

fun mapE :: "('a \<Rightarrow> 'e + 'b) \<Rightarrow> 'a list \<Rightarrow> 'e + 'b list" where
  "mapE f [] = Inr []"
| "mapE f (x # xs) =
     (case f x of
        Inl e \<Rightarrow> Inl e
      | Inr y \<Rightarrow> (case mapE f xs of Inl e \<Rightarrow> Inl e | Inr ys \<Rightarrow> Inr (y # ys)))"

section \<open>Figma nodes\<close>

text \<open>
  A scene node of the Figma plugin API: its \<^verbatim>\<open>children\<close> property is either absent
  (\<^const>\<open>None\<close>) or an array of scene nodes; every other property is read as an
  arbitrary JavaScript value and may be missing, \<^verbatim>\<open>figma.mixed\<close> or of the wrong type.
\<close>

datatype node = Node (node_props: "(string \<times> jsval) list") (node_children: "node list option")

definition nget :: "node \<Rightarrow> string \<Rightarrow> jsval" where
  "nget n k = (case map_of (node_props n) k of None \<Rightarrow> JUndefined | Some v \<Rightarrow> v)"

definition MAX_TREE_DEPTH :: nat where
  "MAX_TREE_DEPTH = 15"

definition MAX_IMAGE_SCAN_DEPTH :: nat where
  "MAX_IMAGE_SCAN_DEPTH = 30"

definition MAX_IMAGE_ASSETS :: nat where
  "MAX_IMAGE_ASSETS = 50"

definition MAX_VECTOR_ASSETS :: nat where
  "MAX_VECTOR_ASSETS = 30"

definition MAX_COMPOSITE_ASSETS :: nat where
  "MAX_COMPOSITE_ASSETS = 20"

definition COMPOSITE_MAX_PX :: real where
  "COMPOSITE_MAX_PX = 512"

section \<open>Node serializer\<close>

definition toColor :: "jsval \<Rightarrow> jsval" where
  "toColor c =
     (if \<not> truthy c \<or> typeof c = ''symbol''
      then JObj [(''r'', JNum 0), (''g'', JNum 0), (''b'', JNum 0), (''a'', JNum 1)]
      else JObj [(''r'', safeNum (jsget c ''r'') (JNum 0)), (''g'', safeNum (jsget c ''g'') (JNum 0)),
                 (''b'', safeNum (jsget c ''b'') (JNum 0)), (''a'', safeNum (jsget c ''a'') (JNum 1))])"

text \<open>The callback of \<^verbatim>\<open>safeArr(p.gradientStops).map(...)\<close>: it reads \<^verbatim>\<open>s.color\<close> and
  \<^verbatim>\<open>s.position\<close> without a guard, so a \<^verbatim>\<open>null\<close> stop throws.\<close>

definition gradientStop :: "jsval \<Rightarrow> js_error + jsval" where
  "gradientStop s =
     (case jsget_checked s ''color'' of
        Inl e \<Rightarrow> Inl e
      | Inr c \<Rightarrow>
          (case jsget_checked s ''position'' of
             Inl e \<Rightarrow> Inl e
           | Inr pos \<Rightarrow> Inr (JObj [(''color'', toColor c), (''position'', safeNum pos (JNum 0))])))"

definition extractPaint :: "jsval \<Rightarrow> js_error + jsval" where
  "extractPaint p =
     (if \<not> truthy p \<or> typeof p = ''symbol'' then Inr JNull
      else
        let base = [(''type'', safeStr (jsget p ''type'') (JStr ''SOLID'')),
                    (''visible'', safeBool (jsget p ''visible'') (JBool True)),
                    (''opacity'', safeNum (jsget p ''opacity'') (JNum 1))]
        in if jsget p ''type'' = JStr ''SOLID''
           then Inr (JObj (base @ [(''color'', toColor (jsget p ''color''))]))
           else if jsget p ''type'' = JStr ''GRADIENT_LINEAR'' \<or> jsget p ''type'' = JStr ''GRADIENT_RADIAL''
                 \<or> jsget p ''type'' = JStr ''GRADIENT_ANGULAR'' \<or> jsget p ''type'' = JStr ''GRADIENT_DIAMOND''
           then (case mapE gradientStop (elems (safeArr (jsget p ''gradientStops''))) of
                   Inl e \<Rightarrow> Inl e
                 | Inr stops \<Rightarrow> Inr (JObj (base @ [(''gradientStops'', JArr stops)])))
           else if jsget p ''type'' = JStr ''IMAGE''
           then Inr (JObj (base @ [(''imageRef'', safeStr (jsget p ''imageHash'') (JStr '''')),
                                   (''scaleMode'', safeStr (jsget p ''scaleMode'') (JStr ''FILL''))]))
           else Inr (JObj base))"

definition extractEffect :: "jsval \<Rightarrow> jsval" where
  "extractEffect e =
     (if \<not> truthy e \<or> typeof e = ''symbol'' then JNull
      else
        let base = [(''type'', safeStr (jsget e ''type'') (JStr '''')),
                    (''visible'', safeBool (jsget e ''visible'') (JBool True)),
                    (''radius'', safeNum (jsget e ''radius'') (JNum 0))]
        in if jsget e ''type'' = JStr ''DROP_SHADOW'' \<or> jsget e ''type'' = JStr ''INNER_SHADOW''
           then
             let offset =
                   (if truthy (jsget e ''offset'')
                    then JObj [(''x'', safeNum (jsget (jsget e ''offset'') ''x'') (JNum 0)),
                               (''y'', safeNum (jsget (jsget e ''offset'') ''y'') (JNum 0))]
                    else JObj [(''x'', JNum 0), (''y'', JNum 0)])
             in JObj (base @ [(''color'', toColor (jsget e ''color'')), (''offset'', offset),
                              (''spread'', safeNum (jsget e ''spread'') (JNum 0))])
           else JObj base)"

definition extractAutoLayout :: "node \<Rightarrow> jsval" where
  "extractAutoLayout node =
     (let mode = safe (nget node ''layoutMode'') JUndefined
      in if \<not> truthy mode \<or> mode = JStr ''NONE'' then JNull
         else JObj [(''mode'', mode),
                    (''spacing'', safeNum (nget node ''itemSpacing'') (JNum 0)),
                    (''paddingTop'', safeNum (nget node ''paddingTop'') (JNum 0)),
                    (''paddingRight'', safeNum (nget node ''paddingRight'') (JNum 0)),
                    (''paddingBottom'', safeNum (nget node ''paddingBottom'') (JNum 0)),
                    (''paddingLeft'', safeNum (nget node ''paddingLeft'') (JNum 0)),
                    (''primaryAxisAlignItems'', safeStr (nget node ''primaryAxisAlignItems'') (JStr ''MIN'')),
                    (''counterAxisAlignItems'', safeStr (nget node ''counterAxisAlignItems'') (JStr ''MIN'')),
                    (''layoutWrap'', safeStr (nget node ''layoutWrap'') (JStr ''NO_WRAP''))])"

text \<open>\<^verbatim>\<open>parseInt(s.replace(/[^0-9]/g, '') || '400', 10)\<close>: the decimal digits of the
  style name read as a number, 400 when there is none.\<close>

definition isDigit :: "char \<Rightarrow> bool" where
  "isDigit c = (48 \<le> (of_char c :: nat) \<and> (of_char c :: nat) \<le> 57)"

definition parseInt10 :: "string \<Rightarrow> nat" where
  "parseInt10 ds = foldl (\<lambda>acc c. 10 * acc + ((of_char c :: nat) - 48)) 0 ds"

definition fontWeightOf :: "string \<Rightarrow> jsval" where
  "fontWeightOf style =
     (let digits = filter isDigit style
      in JNum (real (parseInt10 (if digits \<noteq> [] then digits else ''400''))))"

text \<open>Every read in \<^verbatim>\<open>extractTextStyle\<close> is behind a truthiness test, so in this model
  it does not throw and the \<^verbatim>\<open>try/catch\<close> around its call never fires.\<close>

definition extractTextStyle :: "node \<Rightarrow> jsval" where
  "extractTextStyle node =
     (let fs = safe (nget node ''fontName'') JUndefined
      in if \<not> truthy fs \<or> typeof fs = ''symbol'' then JNull
         else
           let lh = safe (nget node ''lineHeight'') JUndefined;
               ls = safe (nget node ''letterSpacing'') JUndefined
           in JObj [(''fontFamily'', safeStr (jsget fs ''family'') (JStr '''')),
                    (''fontStyle'', safeStr (jsget fs ''style'') (JStr '''')),
                    (''fontSize'', safeNum (nget node ''fontSize'') (JNum 0)),
                    (''fontWeight'', fontWeightOf (str_of (safeStr (jsget fs ''style'') (JStr '''')))),
                    (''letterSpacing'',
                       (if truthy ls \<and> jsget ls ''unit'' = JStr ''PIXELS''
                        then safeNum (jsget ls ''value'') (JNum 0) else JNum 0)),
                    (''lineHeight'',
                       (if truthy lh \<and> jsget lh ''unit'' = JStr ''AUTO'' then JStr ''AUTO''
                        else if truthy lh then safeNum (jsget lh ''value'') (JNum 0) else JNum 0)),
                    (''textAlignHorizontal'', safeStr (nget node ''textAlignHorizontal'') (JStr ''LEFT'')),
                    (''textAlignVertical'', safeStr (nget node ''textAlignVertical'') (JStr ''TOP'')),
                    (''textDecoration'', safeStr (nget node ''textDecoration'') (JStr ''NONE'')),
                    (''textCase'', safeStr (nget node ''textCase'') (JStr ''ORIGINAL''))])"

text \<open>
  \<^verbatim>\<open>extractDesignNode(node, depth)\<close> builds the object \<^verbatim>\<open>base\<close> and then adds fields to
  it block by block. The serialized node is modelled as its fields other than
  \<^verbatim>\<open>children\<close>, in the order they are set, and the \<^verbatim>\<open>children\<close> field: \<^const>\<open>None\<close>
  when the field is not set.
\<close>

datatype snapshot =
  Snapshot (snap_fields: "(string \<times> jsval) list") (snap_children: "snapshot list option")

text \<open>Whether a serialized node has a field (other than \<^verbatim>\<open>children\<close>) of that name.\<close>

definition has_field :: "snapshot \<Rightarrow> string \<Rightarrow> bool" where
  "has_field s k = (map_of (snap_fields s) k \<noteq> None)"

text \<open>The object literal \<^verbatim>\<open>base\<close>. The two \<^verbatim>\<open>map(extractPaint)\<close> calls can throw.\<close>

definition baseFields :: "node \<Rightarrow> js_error + (string \<times> jsval) list" where
  "baseFields node =
     (case mapE extractPaint (elems (safeArr (safe (nget node ''fills'') JUndefined))) of
        Inl e \<Rightarrow> Inl e
      | Inr fs \<Rightarrow>
     (case mapE extractPaint (elems (safeArr (safe (nget node ''strokes'') JUndefined))) of
        Inl e \<Rightarrow> Inl e
      | Inr ss \<Rightarrow>
          let fills = filter (\<lambda>p. p \<noteq> JNull) fs;
              strokes = filter (\<lambda>p. p \<noteq> JNull) ss;
              effects = filter (\<lambda>e. e \<noteq> JNull)
                          (map extractEffect (elems (safeArr (safe (nget node ''effects'') JUndefined))));
              constraints = safe (nget node ''constraints'') JUndefined
          in Inr [(''id'', safeStr (nget node ''id'') (JStr '''')),
                  (''name'', safeStr (nget node ''name'') (JStr '''')),
                  (''type'', safeStr (nget node ''type'') (JStr '''')),
                  (''visible'', safeBool (nget node ''visible'') (JBool True)),
                  (''opacity'', safeNum (nget node ''opacity'') (JNum 1)),
                  (''blendMode'', safeStr (nget node ''blendMode'') (JStr ''NORMAL'')),
                  (''locked'', safeBool (nget node ''locked'') (JBool False)),
                  (''x'', safeNum (nget node ''x'') (JNum 0)),
                  (''y'', safeNum (nget node ''y'') (JNum 0)),
                  (''width'', safeNum (nget node ''width'') (JNum 0)),
                  (''height'', safeNum (nget node ''height'') (JNum 0)),
                  (''constraintHorizontal'',
                     (if truthy constraints then safeStr (jsget constraints ''horizontal'') (JStr '''')
                      else JUndefined)),
                  (''constraintVertical'',
                     (if truthy constraints then safeStr (jsget constraints ''vertical'') (JStr '''')
                      else JUndefined)),
                  (''fills'', JArr fills),
                  (''strokes'', JArr strokes),
                  (''strokeWeight'', safeNum (nget node ''strokeWeight'') (JNum 0)),
                  (''strokeAlign'', safeStr (nget node ''strokeAlign'') (JStr ''INSIDE'')),
                  (''dashPattern'',
                     JArr (filter (\<lambda>v. typeof v = ''number'')
                             (elems (safeArr (safe (nget node ''dashPattern'') JUndefined))))),
                  (''effects'', JArr effects),
                  (''isMask'', safeBool (nget node ''isMask'') (JBool False))]))"

text \<open>The block \<^verbatim>\<open>// Corner radius\<close>: the fields it adds to \<^verbatim>\<open>base\<close>.\<close>

definition cornerRadiusFields :: "node \<Rightarrow> (string \<times> jsval) list" where
  "cornerRadiusFields node =
     (let cr = safe (nget node ''cornerRadius'') JUndefined
      in if cr \<noteq> JNull
         then (if typeof cr = ''number'' then [(''cornerRadius'', cr)]
               else [(''topLeftRadius'', safeNum (nget node ''topLeftRadius'') (JNum 0)),
                     (''topRightRadius'', safeNum (nget node ''topRightRadius'') (JNum 0)),
                     (''bottomRightRadius'', safeNum (nget node ''bottomRightRadius'') (JNum 0)),
                     (''bottomLeftRadius'', safeNum (nget node ''bottomLeftRadius'') (JNum 0))])
         else [])"

text \<open>The block \<^verbatim>\<open>// Auto-layout\<close>.\<close>

definition autoLayoutFields :: "node \<Rightarrow> (string \<times> jsval) list" where
  "autoLayoutFields node =
     (if nget node ''type'' = JStr ''FRAME'' \<or> nget node ''type'' = JStr ''COMPONENT''
         \<or> nget node ''type'' = JStr ''INSTANCE''
      then (let al = extractAutoLayout node in if truthy al then [(''autoLayout'', al)] else [])
      else [])"

text \<open>The block \<^verbatim>\<open>// Text\<close>.\<close>

definition textFields :: "node \<Rightarrow> (string \<times> jsval) list" where
  "textFields node =
     (if nget node ''type'' = JStr ''TEXT''
      then (let chars = safe (nget node ''characters'') JUndefined;
                ts = extractTextStyle node
            in [(''characters'', (if typeof chars = ''string'' then chars else JStr ''''))]
               @ (if truthy ts then [(''textStyle'', ts)] else []))
      else [])"

text \<open>The block \<^verbatim>\<open>// Component\<close>.\<close>

definition componentFields :: "node \<Rightarrow> (string \<times> jsval) list" where
  "componentFields node =
     (if nget node ''type'' = JStr ''INSTANCE''
      then (let mc = safe (nget node ''mainComponent'') JUndefined
            in [(''componentId'', (if truthy mc then safeStr (jsget mc ''id'') (JStr '''') else JUndefined))])
      else [])"

definition ownFields :: "node \<Rightarrow> js_error + (string \<times> jsval) list" where
  "ownFields node =
     (case baseFields node of
        Inl e \<Rightarrow> Inl e
      | Inr base \<Rightarrow>
          Inr (base @ cornerRadiusFields node @ autoLayoutFields node @ textFields node
                 @ componentFields node))"

text \<open>
  The block \<^verbatim>\<open>// Children\<close> and the result. A child whose extraction throws is
  skipped by the \<^verbatim>\<open>try/catch\<close> inside the loop. The recursion stops at
  \<^const>\<open>MAX_TREE_DEPTH\<close>, which is also why it terminates.
\<close>

function extractDesignNode :: "node \<Rightarrow> nat \<Rightarrow> js_error + snapshot" where
  "extractDesignNode node depth =
     (case ownFields node of
        Inl e \<Rightarrow> Inl e
      | Inr base \<Rightarrow>
          (if depth < MAX_TREE_DEPTH
           then (case node_children node of
                   None \<Rightarrow> Inr (Snapshot base None)
                 | Some cs \<Rightarrow>
                     Inr (Snapshot base
                           (Some (concat (map (\<lambda>c. case extractDesignNode c (depth + 1) of
                                                     Inl e \<Rightarrow> []
                                                   | Inr s \<Rightarrow> [s]) cs)))))
           else Inr (Snapshot base None)))"
  by pat_completeness auto
termination
  by (relation "measure (\<lambda>(n, d). MAX_TREE_DEPTH - d)") auto

section \<open>Asset collector\<close>

text \<open>
  The accumulator \<^verbatim>\<open>collected\<close>, mutated in place by the source and passed through
  here. \<^verbatim>\<open>imageHashes\<close> and \<^verbatim>\<open>compositeIds\<close> are plain objects (created as \<^verbatim>\<open>{}\<close>)
  used as dictionaries; they are association lists of their own properties in insertion
  order. A read \<^verbatim>\<open>d[k]\<close> of such an object also finds the properties it inherits from
  \<^verbatim>\<open>Object.prototype\<close>, all of which are truthy.
\<close>

definition OBJECT_PROTOTYPE_NAMES :: "string list" where
  "OBJECT_PROTOTYPE_NAMES =
     [''constructor'', ''__defineGetter__'', ''__defineSetter__'', ''hasOwnProperty'',
      ''__lookupGetter__'', ''__lookupSetter__'', ''isPrototypeOf'', ''propertyIsEnumerable'',
      ''toString'', ''valueOf'', ''__proto__'', ''toLocaleString'']"

record image_info =
  info_nodeId :: string
  info_nodeName :: string
  info_width :: real
  info_height :: real

record node_entry =
  entry_node :: node
  entry_nodeId :: string
  entry_nodeName :: string

record collected =
  imageHashes :: "(string \<times> image_info) list"
  vectorNodes :: "node_entry list"
  compositeNodes :: "node_entry list"
  compositeIds :: "(string \<times> bool) list"
  totalCount :: nat

text \<open>The accumulator that \<^verbatim>\<open>sendCurrentSelection\<close> starts a walk with.\<close>

definition initialCollected :: collected where
  "initialCollected =
     \<lparr>imageHashes = [], vectorNodes = [], compositeNodes = [], compositeIds = [], totalCount = 0\<rparr>"

text \<open>The truthiness of \<^verbatim>\<open>collected.imageHashes[hash]\<close> and of
  \<^verbatim>\<open>collected.compositeIds[id]\<close>: the own property when there is one (an info object,
  which is truthy, or the stored boolean), the inherited one otherwise.\<close>

definition hasImageHash :: "collected \<Rightarrow> string \<Rightarrow> bool" where
  "hasImageHash c hash =
     (case map_of (imageHashes c) hash of
        Some info \<Rightarrow> True
      | None \<Rightarrow> hash \<in> set OBJECT_PROTOTYPE_NAMES)"

definition hasCompositeId :: "collected \<Rightarrow> string \<Rightarrow> bool" where
  "hasCompositeId c ident =
     (case map_of (compositeIds c) ident of
        Some b \<Rightarrow> b
      | None \<Rightarrow> ident \<in> set OBJECT_PROTOTYPE_NAMES)"

text \<open>The test \<^verbatim>\<open>f && f.type === 'IMAGE' && f.imageHash\<close> of both scans.\<close>

definition isImageFill :: "jsval \<Rightarrow> bool" where
  "isImageFill f = (truthy f \<and> jsget f ''type'' = JStr ''IMAGE'' \<and> truthy (jsget f ''imageHash''))"

text \<open>\<^verbatim>\<open>subtreeHasImage(node, d)\<close>.\<close>

function subtreeHasImage :: "node \<Rightarrow> nat \<Rightarrow> bool" where
  "subtreeHasImage node d =
     (if d > 4 then False
      else if list_ex isImageFill (elems (safeArr (safe (nget node ''fills'') JUndefined))) then True
      else (case node_children node of
              None \<Rightarrow> False
            | Some cs \<Rightarrow> list_ex (\<lambda>c. subtreeHasImage c (d + 1)) cs))"
  by pat_completeness auto
termination
  by (relation "measure (\<lambda>(n, d). 5 - d)") auto

text \<open>The body of the loop over \<^verbatim>\<open>fills\<close> in \<^verbatim>\<open>collectImageAssets\<close>.\<close>

definition collectFill :: "node \<Rightarrow> jsval \<Rightarrow> collected \<Rightarrow> collected" where
  "collectFill node f c =
     (if isImageFill f
      then (let hash = str_of (safeStr (jsget f ''imageHash'') (JStr ''''))
            in if hash \<noteq> [] \<and> \<not> hasImageHash c hash
               then c\<lparr>imageHashes := imageHashes c @
                         [(hash, \<lparr>info_nodeId = str_of (safeStr (nget node ''id'') (JStr '''')),
                                  info_nodeName = str_of (safeStr (nget node ''name'') (JStr '''')),
                                  info_width = num_of (safeNum (nget node ''width'') (JNum 0)),
                                  info_height = num_of (safeNum (nget node ''height'') (JNum 0))\<rparr>)],
                       totalCount := totalCount c + 1\<rparr>
               else c)
      else c)"

text \<open>The block \<^verbatim>\<open>// Check for vector-like nodes\<close>.\<close>

definition collectVector :: "node \<Rightarrow> collected \<Rightarrow> collected" where
  "collectVector node c =
     (let nt = str_of (safeStr (nget node ''type'') (JStr ''''));
          isVector = (nt = ''VECTOR'' \<or> nt = ''STAR'' \<or> nt = ''LINE'' \<or> nt = ''POLYGON''
                      \<or> nt = ''BOOLEAN_OPERATION'');
          nodeVisible = bool_of (safeBool (nget node ''visible'') (JBool True));
          nodeW = num_of (safeNum (nget node ''width'') (JNum 0));
          nodeH = num_of (safeNum (nget node ''height'') (JNum 0))
      in if isVector \<and> nodeVisible \<and> (nodeW > 0 \<or> nodeH > 0)
            \<and> length (vectorNodes c) < MAX_VECTOR_ASSETS
         then c\<lparr>vectorNodes := vectorNodes c @
                   [\<lparr>entry_node = node,
                     entry_nodeId = str_of (safeStr (nget node ''id'') (JStr '''')),
                     entry_nodeName = str_of (safeStr (nget node ''name'') (JStr ''''))\<rparr>],
                 totalCount := totalCount c + 1\<rparr>
         else c)"

text \<open>The block \<^verbatim>\<open>// Check for INSTANCE/COMPONENT/FRAME nodes\<close>.\<close>

definition collectComposite :: "node \<Rightarrow> nat \<Rightarrow> collected \<Rightarrow> collected" where
  "collectComposite node depth c =
     (let nt = str_of (safeStr (nget node ''type'') (JStr ''''));
          isContainer = (nt = ''INSTANCE'' \<or> nt = ''COMPONENT'' \<or> nt = ''COMPONENT_SET'');
          isClippedFrame = (nt = ''FRAME'' \<and> bool_of (safeBool (nget node ''clipsContent'') (JBool False)))
      in if (isContainer \<or> isClippedFrame) \<and> depth > 0
            \<and> length (compositeNodes c) < MAX_COMPOSITE_ASSETS
         then (let hasImageDescendant = subtreeHasImage node 0
               in if hasImageDescendant
                     \<and> \<not> hasCompositeId c (str_of (safeStr (nget node ''id'') (JStr '''')))
                  then c\<lparr>compositeNodes := compositeNodes c @
                            [\<lparr>entry_node = node,
                              entry_nodeId = str_of (safeStr (nget node ''id'') (JStr '''')),
                              entry_nodeName = str_of (safeStr (nget node ''name'') (JStr ''''))\<rparr>],
                          compositeIds := compositeIds c @
                            [(str_of (safeStr (nget node ''id'') (JStr '''')), True)],
                          totalCount := totalCount c + 1\<rparr>
                  else c)
         else c)"

text \<open>
  \<^verbatim>\<open>collectImageAssets(node, depth, collected)\<close>. The three early returns leave the
  accumulator as it is. Every read in the body is guarded, so in this model a call does
  not throw and the \<^verbatim>\<open>try/catch\<close> around the recursive call never fires.
\<close>

function collectImageAssets :: "node \<Rightarrow> nat \<Rightarrow> collected \<Rightarrow> collected" where
  "collectImageAssets node depth c =
     (if depth > MAX_IMAGE_SCAN_DEPTH then c
      else if totalCount c \<ge> MAX_IMAGE_ASSETS + MAX_VECTOR_ASSETS + MAX_COMPOSITE_ASSETS then c
      else if safeBool (nget node ''visible'') (JBool True) = JBool False then c
      else
        let c1 = fold (collectFill node) (elems (safeArr (safe (nget node ''fills'') JUndefined))) c;
            c2 = collectVector node c1;
            c3 = collectComposite node depth c2
        in (case node_children node of
              None \<Rightarrow> c3
            | Some cs \<Rightarrow> fold (\<lambda>ch acc. collectImageAssets ch (depth + 1) acc) cs c3))"
  by pat_completeness auto
termination
  by (relation "measure (\<lambda>(n, d, c). Suc MAX_IMAGE_SCAN_DEPTH - d)") auto

text \<open>The walk that \<^verbatim>\<open>sendCurrentSelection\<close> runs on the selected node.\<close>

definition collectWalk :: "node \<Rightarrow> collected" where
  "collectWalk node = collectImageAssets node 0 initialCollected"

section \<open>Asset exporter\<close>

text \<open>
  Modelled from the spec: the declaration of \<^verbatim>\<open>ImageAsset\<close> (\<^verbatim>\<open>types/selection.ts\<close> of the
  server package) is not among the sources. The fields are those of the specification's
  data model, which are the fields of the object literals that \<^verbatim>\<open>exportImageAssets\<close>
  builds; the server adds \<^verbatim>\<open>filePath\<close>.
\<close>

record ImageAsset =
  asset_id :: string
  asset_format :: string
  asset_data :: string
  asset_nodeId :: string
  asset_nodeName :: string
  asset_width :: real
  asset_height :: real
  asset_assetType :: string
  asset_filePath :: "string option"

definition CHARS :: string where
  "CHARS = ''ABCDEFGHIJKLMNOPQRSTUVWXYZabcdefghijklmnopqrstuvwxyz0123456789+/''"

text \<open>\<^verbatim>\<open>uint8ToBase64(u8)\<close>: one round of the loop per three bytes.\<close>

fun uint8ToBase64 :: "byte list \<Rightarrow> string" where
  "uint8ToBase64 [] = []"
| "uint8ToBase64 [a] =
     [CHARS ! unat (drop_bit 2 a),
      CHARS ! unat (push_bit 4 (a AND 3) OR drop_bit 4 (0 :: byte)),
      CHR ''='', CHR ''='']"
| "uint8ToBase64 [a, b] =
     [CHARS ! unat (drop_bit 2 a),
      CHARS ! unat (push_bit 4 (a AND 3) OR drop_bit 4 b),
      CHARS ! unat (push_bit 2 (b AND 15) OR drop_bit 6 (0 :: byte)),
      CHR ''='']"
| "uint8ToBase64 (a # b # c # rest) =
     [CHARS ! unat (drop_bit 2 a),
      CHARS ! unat (push_bit 4 (a AND 3) OR drop_bit 4 b),
      CHARS ! unat (push_bit 2 (b AND 15) OR drop_bit 6 c),
      CHARS ! unat (c AND 63)] @ uint8ToBase64 rest"

text \<open>
  Arithmetic on JavaScript numbers is IEEE 754 binary64 arithmetic: the exact result
  rounded to the nearest double, a tie going to the even mantissa. \<open>rne\<close> rounds to the
  nearest integer with ties to even; \<open>binade x\<close> is the exponent \<open>e\<close> with
  \<open>2 ^ e \<le> \<bar>x\<bar> < 2 ^ (e + 1)\<close>, not below -1022 (the subnormal range), so that the
  doubles around \<open>x\<close> are the multiples of \<open>2 ^ (e - 52)\<close>; \<open>fl x\<close> is \<open>x\<close> rounded to a
  double. Overflow to infinity is not modelled; the two operations that use \<open>fl\<close> here, a
  quotient below 1 and a product with a factor of at most 1, do not overflow.
\<close>

definition rne :: "real \<Rightarrow> int" where
  "rne y =
     (let n = \<lfloor>y\<rfloor>; r = y - of_int n
      in if r < 1 / 2 then n else if 1 / 2 < r then n + 1 else if even n then n else n + 1)"

definition binade :: "real \<Rightarrow> int" where
  "binade x =
     (let a = \<bar>x\<bar>
      in max (if 1 \<le> a then int (floorlog 2 (nat \<lfloor>a\<rfloor>)) - 1
              else - int (floorlog 2 (nat (\<lceil>1 / a\<rceil> - 1))))
             (- 1022))"

definition fl :: "real \<Rightarrow> real" where
  "fl x =
     (if x = 0 then 0
      else let q = 2 powi (binade x - 52)
           in sgn x * (of_int (rne (\<bar>x\<bar> / q)) * q))"

text \<open>\<^verbatim>\<open>Math.round\<close>: the nearest integer, a tie going up.\<close>

definition js_round :: "real \<Rightarrow> real" where
  "js_round x = real_of_int \<lfloor>x + 1 / 2\<rfloor>"

text \<open>
  The host calls of the exporter are parameters: \<open>getImageBytes hash\<close> is
  \<^verbatim>\<open>figma.getImageByHash(hash)\<close> followed by \<^verbatim>\<open>getBytesAsync()\<close>, and \<open>exportAsync node
  settings\<close> is \<^verbatim>\<open>node.exportAsync(settings)\<close>; \<^const>\<open>None\<close> is a missing image, an
  exception or a rejected promise, after which the item is left out.
\<close>

datatype export_settings = SVG | PNG_SCALE real

definition exportImageFill :: "(string \<Rightarrow> byte list option) \<Rightarrow> string \<times> image_info \<Rightarrow> ImageAsset list" where
  "exportImageFill getImageBytes entry =
     (case entry of (hash, info) \<Rightarrow>
        (case getImageBytes hash of
           None \<Rightarrow> []
         | Some bytes \<Rightarrow>
             [\<lparr>asset_id = hash,
               asset_format = detectImageFormat (Some bytes),
               asset_data = uint8ToBase64 bytes,
               asset_nodeId = info_nodeId info,
               asset_nodeName = info_nodeName info,
               asset_width = info_width info,
               asset_height = info_height info,
               asset_assetType = ''image-fill'',
               asset_filePath = None\<rparr>]))"

definition exportVector :: "(node \<Rightarrow> export_settings \<Rightarrow> byte list option) \<Rightarrow> node_entry \<Rightarrow> ImageAsset list" where
  "exportVector exportAsync vec =
     (if truthy (nget (entry_node vec) ''exportAsync'')
      then (case exportAsync (entry_node vec) SVG of
              None \<Rightarrow> []
            | Some bytes \<Rightarrow>
                [\<lparr>asset_id = entry_nodeId vec,
                  asset_format = ''svg'',
                  asset_data = uint8ToBase64 bytes,
                  asset_nodeId = entry_nodeId vec,
                  asset_nodeName = entry_nodeName vec,
                  asset_width = num_of (safeNum (nget (entry_node vec) ''width'') (JNum 0)),
                  asset_height = num_of (safeNum (nget (entry_node vec) ''height'') (JNum 0)),
                  asset_assetType = ''vector'',
                  asset_filePath = None\<rparr>])
      else [])"

text \<open>The scale of a composite export:
  \<^verbatim>\<open>var scale = maxDim > COMPOSITE_MAX_PX ? COMPOSITE_MAX_PX / maxDim : 1\<close>.\<close>

definition compositeScale :: "node \<Rightarrow> real" where
  "compositeScale node =
     (let w = num_of (safeNum (nget node ''width'') (JNum 1));
          h = num_of (safeNum (nget node ''height'') (JNum 1));
          maxDim = max w h
      in if maxDim > COMPOSITE_MAX_PX then fl (COMPOSITE_MAX_PX / maxDim) else 1)"

definition exportComposite :: "(node \<Rightarrow> export_settings \<Rightarrow> byte list option) \<Rightarrow> node_entry \<Rightarrow> ImageAsset list" where
  "exportComposite exportAsync compEntry =
     (if truthy (nget (entry_node compEntry) ''exportAsync'')
      then (let w = num_of (safeNum (nget (entry_node compEntry) ''width'') (JNum 1));
                h = num_of (safeNum (nget (entry_node compEntry) ''height'') (JNum 1));
                scale = compositeScale (entry_node compEntry)
            in case exportAsync (entry_node compEntry) (PNG_SCALE scale) of
                 None \<Rightarrow> []
               | Some bytes \<Rightarrow>
                   [\<lparr>asset_id = ''composite_'' @ entry_nodeId compEntry,
                     asset_format = detectImageFormat (Some bytes),
                     asset_data = uint8ToBase64 bytes,
                     asset_nodeId = entry_nodeId compEntry,
                     asset_nodeName = entry_nodeName compEntry,
                     asset_width = js_round (fl (w * scale)),
                     asset_height = js_round (fl (h * scale)),
                     asset_assetType = ''image-fill'',
                     asset_filePath = None\<rparr>])
      else [])"

text \<open>
  \<^verbatim>\<open>exportImageAssets(collected)\<close>: the assets the promise resolves to, from its
  three loops. The source pushes each asset when its export completes, so the order of
  the array is the completion order; the model lists them in the order the exports are
  issued.
\<close>

text \<open>
  The order of \<^verbatim>\<open>Object.keys\<close>: the keys that are array indices (the decimal numerals of
  the integers below \<open>2 ^ 32 - 1\<close>, without leading zeros) in ascending numeric order,
  then every other key in insertion order. \<open>objectEntries d\<close> lists the entries of a
  dictionary in that order: its keys are \<^verbatim>\<open>Object.keys(d)\<close>, each with the value
  \<^verbatim>\<open>d[key]\<close>.
\<close>

definition indexValue :: "string \<Rightarrow> int" where
  "indexValue k = foldl (\<lambda>acc c. 10 * acc + (of_char c - 48)) 0 k"

definition isArrayIndex :: "string \<Rightarrow> bool" where
  "isArrayIndex k =
     (k \<noteq> [] \<and> list_all isDigit k \<and> (k = ''0'' \<or> hd k \<noteq> CHR ''0'')
      \<and> indexValue k < 4294967295)"

definition objectEntries :: "(string \<times> 'a) list \<Rightarrow> (string \<times> 'a) list" where
  "objectEntries d =
     sort_key (\<lambda>kv. indexValue (fst kv)) (filter (\<lambda>kv. isArrayIndex (fst kv)) d)
     @ filter (\<lambda>kv. \<not> isArrayIndex (fst kv)) d"

definition exportImageFills :: "(string \<Rightarrow> byte list option) \<Rightarrow> collected \<Rightarrow> ImageAsset list" where
  "exportImageFills getImageBytes c =
     (let hashes = objectEntries (imageHashes c)
      in concat (map (exportImageFill getImageBytes)
                   (take (min (length hashes) MAX_IMAGE_ASSETS) hashes)))"

definition exportVectors ::
  "(node \<Rightarrow> export_settings \<Rightarrow> byte list option) \<Rightarrow> collected \<Rightarrow> ImageAsset list" where
  "exportVectors exportAsync c =
     concat (map (exportVector exportAsync)
               (take (min (length (vectorNodes c)) MAX_VECTOR_ASSETS) (vectorNodes c)))"

definition exportComposites ::
  "(node \<Rightarrow> export_settings \<Rightarrow> byte list option) \<Rightarrow> collected \<Rightarrow> ImageAsset list" where
  "exportComposites exportAsync c =
     concat (map (exportComposite exportAsync)
               (take (min (length (compositeNodes c)) MAX_COMPOSITE_ASSETS) (compositeNodes c)))"

definition exportImageAssets ::
  "(string \<Rightarrow> byte list option) \<Rightarrow> (node \<Rightarrow> export_settings \<Rightarrow> byte list option) \<Rightarrow> collected
     \<Rightarrow> ImageAsset list" where
  "exportImageAssets getImageBytes exportAsync c =
     exportImageFills getImageBytes c @ exportVectors exportAsync c @ exportComposites exportAsync c"

section \<open>Snapshot store and relay\<close>

text \<open>
  The server (\<^verbatim>\<open>packages/mcp-server\<close>). The store is the one slot \<^verbatim>\<open>current\<close>; the
  other state the operations touch is the content of the \<^verbatim>\<open>figma-assets\<close> directory:
  \<^const>\<open>None\<close> while the directory does not exist, else its files by name
  (sub-directories, which \<^verbatim>\<open>clearAssets\<close> leaves alone, are not modelled). A file is
  recorded by the base64 text whose decoding was written, as text for SVG and as raw
  bytes otherwise. The identity fields of a selection hold whatever JSON value the
  request carried. The interface \<^verbatim>\<open>SelectionState\<close> is declared in the sources without
  the field \<^verbatim>\<open>images\<close> that \<^verbatim>\<open>setImages\<close> reads and writes; it is the optional record
  from asset id to asset of the specification's data model.
\<close>

record SelectionState =
  fileId :: jsval
  nodeId :: jsval
  pageId :: jsval
  userId :: jsval
  metadata :: jsval
  designTree :: jsval
  images :: "(string \<times> ImageAsset) list option"
  timestamp :: real

datatype asset_file = TextFile string | BinaryFile string

record world =
  current :: "SelectionState option"
  assetsDir :: "(string \<times> asset_file) list option"

text \<open>The absolute path of the assets directory, which the source resolves from
  \<^verbatim>\<open>__dirname\<close>; \<^verbatim>\<open>path.join\<close> with a file name is written as concatenation.\<close>

definition ASSETS_DIR :: string where
  "ASSETS_DIR = ''figma-assets''"

text \<open>\<^verbatim>\<open>sanitize(id)\<close>: \<^verbatim>\<open>id.replace(/[^a-zA-Z0-9_-]/g, '_')\<close>.\<close>

definition keepChar :: "char \<Rightarrow> bool" where
  "keepChar c =
     (let n = (of_char c :: nat)
      in (97 \<le> n \<and> n \<le> 122) \<or> (65 \<le> n \<and> n \<le> 90) \<or> (48 \<le> n \<and> n \<le> 57) \<or> n = 95 \<or> n = 45)"

definition sanitize :: "string \<Rightarrow> string" where
  "sanitize ident = map (\<lambda>c. if keepChar c then c else CHR ''_'') ident"

definition clearAssets :: "world \<Rightarrow> world" where
  "clearAssets w = (case assetsDir w of None \<Rightarrow> w | Some files \<Rightarrow> w\<lparr>assetsDir := Some []\<rparr>)"

text \<open>One round of the loop of \<^verbatim>\<open>writeAssets\<close>: the file written and the entry added to
  \<^verbatim>\<open>filePaths\<close>.\<close>

definition writeAsset ::
  "ImageAsset \<Rightarrow> (string \<times> string) list \<times> (string \<times> asset_file) list
     \<Rightarrow> (string \<times> string) list \<times> (string \<times> asset_file) list" where
  "writeAsset asset st =
     (case st of (filePaths, files) \<Rightarrow>
        let filename = sanitize (asset_id asset) @ ''.'' @ asset_format asset;
            filePath = ASSETS_DIR @ ''/'' @ filename;
            content = (if asset_format asset = ''svg'' then TextFile (asset_data asset)
                       else BinaryFile (asset_data asset))
        in (AList.update (asset_id asset) filePath filePaths, AList.update filename content files))"

definition writeAssets :: "ImageAsset list \<Rightarrow> world \<Rightarrow> (string \<times> string) list \<times> world" where
  "writeAssets assets w =
     (let files0 = (case assetsDir w of None \<Rightarrow> [] | Some files \<Rightarrow> files);
          res = fold writeAsset assets ([], files0)
      in (fst res, w\<lparr>assetsDir := Some (snd res)\<rparr>))"

text \<open>The methods of \<^verbatim>\<open>SelectionStore\<close>.\<close>

definition store_set :: "SelectionState \<Rightarrow> world \<Rightarrow> world" where
  "store_set selection w = (clearAssets w)\<lparr>current := Some selection\<rparr>"

definition store_get :: "world \<Rightarrow> SelectionState option" where
  "store_get w = current w"

definition store_clear :: "world \<Rightarrow> world" where
  "store_clear w = (clearAssets w)\<lparr>current := None\<rparr>"

text \<open>
  \<^verbatim>\<open>a !== b\<close> between the stored node id and the node id of a later request: both come
  out of separately parsed JSON bodies, so two arrays or objects are never the same
  reference, and primitives are compared by value.
\<close>

fun strict_neq :: "jsval \<Rightarrow> jsval \<Rightarrow> bool" where
  "strict_neq (JArr xs) b = True"
| "strict_neq (JObj ps) b = True"
| "strict_neq (JFun f) b = True"
| "strict_neq a b = (a \<noteq> b)"

definition setImages :: "jsval \<Rightarrow> ImageAsset list \<Rightarrow> world \<Rightarrow> bool \<times> world" where
  "setImages nid assets w =
     (case current w of
        None \<Rightarrow> (False, w)
      | Some cur \<Rightarrow>
          if strict_neq (nodeId cur) nid then (False, w)
          else
            (case writeAssets assets w of (filePaths, w') \<Rightarrow>
               let map0 = (case images cur of None \<Rightarrow> [] | Some m \<Rightarrow> m);
                   map1 = fold (\<lambda>a m. AList.update (asset_id a)
                                        (a\<lparr>asset_filePath := map_of filePaths (asset_id a)\<rparr>) m)
                            assets map0
               in (True, w'\<lparr>current := Some (cur\<lparr>images := Some map1\<rparr>)\<rparr>)))"

text \<open>
  The two \<^verbatim>\<open>POST\<close> handlers. A request body is the parsed JSON object as the list of
  its properties, or \<^const>\<open>None\<close> when \<^verbatim>\<open>req.body\<close> is undefined; \<open>now\<close> is
  \<^verbatim>\<open>Date.now()\<close>. A response is its status code and JSON payload.
\<close>

record response =
  status :: nat
  payload :: jsval

definition INVALID_SELECTION_PAYLOAD :: string where
  "INVALID_SELECTION_PAYLOAD = ''Invalid payload. Required fields: fileId, nodeId, metadata''"

definition post_selection :: "(string \<times> jsval) list option \<Rightarrow> real \<Rightarrow> world \<Rightarrow> response \<times> world" where
  "post_selection req_body now w =
     (let body = (case req_body of None \<Rightarrow> [] | Some b \<Rightarrow> b);
          fileId' = jsget (JObj body) ''fileId'';
          nodeId' = jsget (JObj body) ''nodeId'';
          pageId' = jsget (JObj body) ''pageId'';
          userId' = jsget (JObj body) ''userId'';
          metadata' = jsget (JObj body) ''metadata'';
          designTree' = jsget (JObj body) ''designTree''
      in if \<not> truthy fileId' \<or> \<not> truthy nodeId' \<or> \<not> truthy metadata'
         then (\<lparr>status = 400,
                 payload = JObj [(''error'', JStr INVALID_SELECTION_PAYLOAD),
                                 (''received'', JArr (map (\<lambda>kv. JStr (fst kv)) body))]\<rparr>, w)
         else (\<lparr>status = 200, payload = JObj [(''ok'', JBool True)]\<rparr>,
               store_set \<lparr>fileId = fileId',
                          nodeId = nodeId',
                          pageId = (if truthy pageId' then pageId' else JStr ''unknown''),
                          userId = (if truthy userId' then userId' else JStr ''anonymous''),
                          metadata = metadata',
                          designTree = designTree',
                          images = Some [],
                          timestamp = now\<rparr> w))"

text \<open>
  The body of \<^verbatim>\<open>POST /selection/images\<close> at the type the handler casts it to
  (\<^verbatim>\<open>Partial<ImageBatchPayload>\<close>, a node id and an array of assets): \<open>batch_assets\<close> is
  \<^const>\<open>None\<close> when \<^verbatim>\<open>assets\<close> is missing or not an array (the test
  \<^verbatim>\<open>!assets || !Array.isArray(assets)\<close>).
\<close>

record image_batch =
  batch_nodeId :: jsval
  batch_assets :: "ImageAsset list option"

definition post_selection_images :: "image_batch \<Rightarrow> world \<Rightarrow> response \<times> world" where
  "post_selection_images body w =
     (case batch_assets body of
        None \<Rightarrow> (\<lparr>status = 400,
                   payload = JObj [(''error'', JStr ''Invalid payload. Required: nodeId, assets[]'')]\<rparr>, w)
      | Some assets \<Rightarrow>
          if \<not> truthy (batch_nodeId body)
          then (\<lparr>status = 400,
                  payload = JObj [(''error'', JStr ''Invalid payload. Required: nodeId, assets[]'')]\<rparr>, w)
          else
            (case setImages (batch_nodeId body) assets w of (ok, w') \<Rightarrow>
               if \<not> ok
               then (\<lparr>status = 409,
                       payload = JObj [(''error'', JStr ''Selection changed; images discarded'')]\<rparr>, w')
               else (\<lparr>status = 200,
                       payload = JObj [(''ok'', JBool True),
                                       (''count'', JNum (real (length assets))),
                                       (''assetsDir'', JStr ASSETS_DIR)]\<rparr>, w')))"

section \<open>Notions used in the statements\<close>


text \<open>The image references collected so far: the own keys of
  \<^verbatim>\<open>collected.imageHashes\<close>, in insertion order. The exporter issues at most one
  image-fill export per key.\<close>

definition hashKeys :: "collected \<Rightarrow> string list" where
  "hashKeys c = map fst (imageHashes c)"

text \<open>The identity fields that \<^verbatim>\<open>POST /selection\<close> requires.\<close>

definition REQUIRED_FIELDS :: "string list" where
  "REQUIRED_FIELDS = [''fileId'', ''nodeId'', ''metadata'']"

section \<open>Example inputs\<close>

definition imagePaint :: "string \<Rightarrow> jsval" where
  "imagePaint h = JObj [(''type'', JStr ''IMAGE''), (''imageHash'', JStr h), (''scaleMode'', JStr ''FILL'')]"

text \<open>A rectangle whose corners differ: Figma reports \<^verbatim>\<open>cornerRadius\<close> as
  \<^verbatim>\<open>figma.mixed\<close> and the four radii one by one.\<close>

definition mixedCornerRect :: node where
  "mixedCornerRect =
     Node [(''id'', JStr ''7:1''), (''name'', JStr ''Card''), (''type'', JStr ''RECTANGLE''),
           (''width'', JNum 200), (''height'', JNum 100),
           (''cornerRadius'', figma_mixed),
           (''topLeftRadius'', JNum 4), (''topRightRadius'', JNum 8),
           (''bottomRightRadius'', JNum 0), (''bottomLeftRadius'', JNum 2)] None"


text \<open>An invisible group that carries an image fill and has a visible child with one.\<close>

definition hiddenGroup :: node where
  "hiddenGroup =
     Node [(''id'', JStr ''1:1''), (''type'', JStr ''GROUP''), (''visible'', JBool False),
           (''fills'', JArr [imagePaint ''h0''])]
       (Some [Node [(''id'', JStr ''1:2''), (''type'', JStr ''RECTANGLE''), (''visible'', JBool True),
                    (''width'', JNum 100), (''height'', JNum 50),
                    (''fills'', JArr [imagePaint ''h1''])] None])"

text \<open>The same group made visible.\<close>

definition shownGroup :: node where
  "shownGroup =
     Node (AList.update ''visible'' (JBool True) (node_props hiddenGroup)) (node_children hiddenGroup)"

text \<open>A node with two fills of the same image, which a child uses once more.\<close>

definition sharedImageNode :: node where
  "sharedImageNode =
     Node [(''id'', JStr ''3:1''), (''type'', JStr ''RECTANGLE''), (''visible'', JBool True),
           (''width'', JNum 100), (''height'', JNum 50),
           (''fills'', JArr [imagePaint ''h1'', imagePaint ''h1''])]
       (Some [Node [(''id'', JStr ''3:2''), (''type'', JStr ''ELLIPSE''),
                    (''fills'', JArr [imagePaint ''h1''])] None])"

text \<open>A composite container of 2000 by 1000 pixels, and a renderer that answers the one
  export request it expects.\<close>

definition wideInstance :: node_entry where
  "wideInstance =
     \<lparr>entry_node = Node [(''id'', JStr ''4:1''), (''type'', JStr ''INSTANCE''),
                        (''width'', JNum 2000), (''height'', JNum 1000),
                        (''exportAsync'', JFun ''exportAsync'')] None,
      entry_nodeId = ''4:1'', entry_nodeName = ''Hero''\<rparr>"

definition pngRenderer :: "node \<Rightarrow> export_settings \<Rightarrow> byte list option" where
  "pngRenderer n settings =
     (if settings = PNG_SCALE (4611686018427388 / 2 ^ 54) then Some [0x89, 0x50, 0x4E, 0x47]
      else None)"

text \<open>A composite container of 644 by 0.62890625 pixels, on which the rounding of
  binary64 arithmetic shows.\<close>

definition thinInstance :: node_entry where
  "thinInstance =
     \<lparr>entry_node = Node [(''id'', JStr ''4:2''), (''type'', JStr ''INSTANCE''),
                        (''width'', JNum 644), (''height'', JNum (161 / 256)),
                        (''exportAsync'', JFun ''exportAsync'')] None,
      entry_nodeId = ''4:2'', entry_nodeName = ''Rule''\<rparr>"

text \<open>A renderer that answers every request, and an image store that has every image.\<close>

definition anyRenderer :: "node \<Rightarrow> export_settings \<Rightarrow> byte list option" where
  "anyRenderer n settings = Some [0x89, 0x50, 0x4E, 0x47]"

definition anyImageBytes :: "string \<Rightarrow> byte list option" where
  "anyImageBytes hash = Some [0x89, 0x50, 0x4E, 0x47]"

text \<open>An image store that has no image.\<close>

definition noImageBytes :: "string \<Rightarrow> byte list option" where
  "noImageBytes hash = None"

text \<open>The node with two fills of the same image, hidden.\<close>

definition hiddenSharedImageNode :: node where
  "hiddenSharedImageNode =
     Node (AList.update ''visible'' (JBool False) (node_props sharedImageNode))
       (node_children sharedImageNode)"

text \<open>A visible node whose fill refers to an image by a name that every object
  inherits.\<close>

definition inheritedNameNode :: node where
  "inheritedNameNode =
     Node [(''id'', JStr ''5:1''), (''type'', JStr ''RECTANGLE''), (''visible'', JBool True),
           (''fills'', JArr [imagePaint ''constructor''])] None"

text \<open>A hidden layer with an image fill, and the same layer without the fill.\<close>

definition hiddenAvatarLayer :: node where
  "hiddenAvatarLayer =
     Node [(''id'', JStr ''9:3''), (''name'', JStr ''Avatar''), (''type'', JStr ''RECTANGLE''),
           (''visible'', JBool False), (''width'', JNum 48), (''height'', JNum 48),
           (''fills'', JArr [imagePaint ''h7''])] None"

definition hiddenPlainLayer :: node where
  "hiddenPlainLayer =
     Node [(''id'', JStr ''9:3''), (''name'', JStr ''Avatar''), (''type'', JStr ''RECTANGLE''),
           (''visible'', JBool False), (''width'', JNum 48), (''height'', JNum 48),
           (''fills'', JArr [])] None"

text \<open>A visible frame that holds a visible component instance whose only child is the
  given layer.\<close>

definition avatarFrame :: "node \<Rightarrow> node" where
  "avatarFrame layer =
     Node [(''id'', JStr ''9:1''), (''name'', JStr ''Row''), (''type'', JStr ''FRAME''),
           (''visible'', JBool True)]
       (Some [Node [(''id'', JStr ''9:2''), (''name'', JStr ''User''), (''type'', JStr ''INSTANCE''),
                    (''visible'', JBool True), (''width'', JNum 48), (''height'', JNum 48),
                    (''exportAsync'', JFun ''exportAsync'')]
                (Some [layer])])"

text \<open>A store that holds a selection with one attached asset.\<close>

definition exampleAsset :: "string \<Rightarrow> string \<Rightarrow> ImageAsset" where
  "exampleAsset ident nid =
     \<lparr>asset_id = ident, asset_format = ''png'', asset_data = ''iVBORw=='', asset_nodeId = nid,
      asset_nodeName = ''Avatar'', asset_width = 64, asset_height = 64,
      asset_assetType = ''image-fill'', asset_filePath = None\<rparr>"

definition exampleSelection :: "string \<Rightarrow> SelectionState" where
  "exampleSelection nid =
     \<lparr>fileId = JStr ''FILE'', nodeId = JStr nid, pageId = JStr ''0:1'', userId = JStr ''anonymous'',
      metadata = JObj [(''nodeName'', JStr ''Card'')], designTree = JUndefined,
      images = Some [(''h0'', (exampleAsset ''h0'' nid)\<lparr>asset_filePath := Some ''figma-assets/h0.png''\<rparr>)],
      timestamp = 1000\<rparr>"

definition exampleWorld :: "string \<Rightarrow> world" where
  "exampleWorld nid =
     \<lparr>current = Some (exampleSelection nid),
      assetsDir = Some [(''h0.png'', BinaryFile ''iVBORw=='')]\<rparr>"

section \<open>Properties of the value normalizer\<close>

text \<open>
  C2. For every input value, the sentinel \<^verbatim>\<open>figma.mixed\<close> (a Symbol) included, each of
  \<^verbatim>\<open>safe\<close>, \<^verbatim>\<open>safeNum\<close>, \<^verbatim>\<open>safeStr\<close>, \<^verbatim>\<open>safeBool\<close> and \<^verbatim>\<open>safeArr\<close> returns (the
  functions are total and have no throwing branch) a value of the expected kind or the
  fallback the caller supplied: \<^verbatim>\<open>safe\<close> returns its input, the fallback or \<^verbatim>\<open>null\<close>;
  the typed variants return a number, string, boolean or array, or the fallback. A
  Symbol is treated exactly as \<^verbatim>\<open>null\<close> and as \<^verbatim>\<open>undefined\<close> are, and the result is
  never a Symbol unless the caller passed one as the fallback.
\<close>

theorem value_normalizers_total_and_sentinel_free:
  "(safe val fb = val \<or> safe val fb = fb \<or> safe val fb = JNull)
   \<and> (typeof (safeNum val fb) = ''number'' \<or> safeNum val fb = fb)
   \<and> (typeof (safeStr val fb) = ''string'' \<or> safeStr val fb = fb)
   \<and> (typeof (safeBool val fb) = ''boolean'' \<or> safeBool val fb = fb)
   \<and> isArray (safeArr val)
   \<and> safe (JSymbol s) fb = safe JNull fb \<and> safe (JSymbol s) fb = safe JUndefined fb
   \<and> safeNum (JSymbol s) fb = safeNum JNull fb \<and> safeNum (JSymbol s) fb = safeNum JUndefined fb
   \<and> safeStr (JSymbol s) fb = safeStr JNull fb \<and> safeStr (JSymbol s) fb = safeStr JUndefined fb
   \<and> safeBool (JSymbol s) fb = safeBool JNull fb \<and> safeBool (JSymbol s) fb = safeBool JUndefined fb
   \<and> safeArr (JSymbol s) = safeArr JNull \<and> safeArr (JSymbol s) = safeArr JUndefined
   \<and> (typeof fb \<noteq> ''symbol'' \<longrightarrow>
         typeof (safe val fb) \<noteq> ''symbol'' \<and> typeof (safeNum val fb) \<noteq> ''symbol''
       \<and> typeof (safeStr val fb) \<noteq> ''symbol'' \<and> typeof (safeBool val fb) \<noteq> ''symbol'')
   \<and> typeof (safeArr val) \<noteq> ''symbol''"
  by (cases val) (auto simp: safe_def safeNum_def safeStr_def safeBool_def safeArr_def Let_def)

theorem value_normalizers_witness:
  "typeof (JNum 7) \<noteq> ''symbol''
   \<and> typeof (safe figma_mixed (JNum 7)) \<noteq> ''symbol''
   \<and> typeof (safeNum figma_mixed (JNum 7)) \<noteq> ''symbol''
   \<and> typeof (safeStr figma_mixed (JNum 7)) \<noteq> ''symbol''
   \<and> typeof (safeBool figma_mixed (JNum 7)) \<noteq> ''symbol''
   \<and> safeNum figma_mixed (JNum 7) = JNum 7
   \<and> safeNum figma_mixed JUndefined = JNum 0
   \<and> safeArr figma_mixed = JArr []"
proof -
  have h: "typeof (JNum 7) \<noteq> ''symbol''" by simp
  from value_normalizers_total_and_sentinel_free [of figma_mixed "JNum 7" "''figma.mixed''"] h
  have "typeof (safe figma_mixed (JNum 7)) \<noteq> ''symbol''
      \<and> typeof (safeNum figma_mixed (JNum 7)) \<noteq> ''symbol''
      \<and> typeof (safeStr figma_mixed (JNum 7)) \<noteq> ''symbol''
      \<and> typeof (safeBool figma_mixed (JNum 7)) \<noteq> ''symbol''"
    by blast
  moreover have "safeNum figma_mixed (JNum 7) = JNum 7 \<and> safeNum figma_mixed JUndefined = JNum 0
      \<and> safeArr figma_mixed = JArr []"
    by (simp add: figma_mixed_def safeNum_def safeArr_def safe_def)
  ultimately show ?thesis using h by blast
qed

section \<open>Properties of image format detection\<close>

lemmas sig_defs = starts_with_def tag_at_def PNG_MAGIC_def JPEG_SOI_def GIF_HEADER_def WEBP_TAG_def

lemma twelve_bytes:
  "12 \<le> length (bs :: byte list) \<Longrightarrow>
     \<exists>b0 b1 b2 b3 b4 b5 b6 b7 b8 b9 b10 b11 r. bs = b0 # b1 # b2 # b3 # b4 # b5 # b6 # b7 # b8 # b9 # b10 # b11 # r"
  by (auto simp: numeral_eq_Suc Suc_le_length_iff)

lemma starts_with_Cons: "starts_with (x # sig) bs \<Longrightarrow> \<exists>r. bs = x # r"
  by (cases bs) (simp_all add: starts_with_def)

lemma jpeg_not_png: "starts_with JPEG_SOI bs \<Longrightarrow> \<not> starts_with PNG_MAGIC bs"
  unfolding JPEG_SOI_def PNG_MAGIC_def by (auto dest!: starts_with_Cons)

lemma gif_not_png: "starts_with GIF_HEADER bs \<Longrightarrow> \<not> starts_with PNG_MAGIC bs"
  unfolding GIF_HEADER_def PNG_MAGIC_def by (auto dest!: starts_with_Cons)

lemma gif_not_jpeg: "starts_with GIF_HEADER bs \<Longrightarrow> \<not> starts_with JPEG_SOI bs"
  unfolding GIF_HEADER_def JPEG_SOI_def by (auto dest!: starts_with_Cons)

text \<open>On twelve bytes or more, the chain of tests in terms of the four signatures.\<close>

lemma detect_long:
  assumes "12 \<le> length bs"
  shows "detectImageFormat (Some bs) =
     (if starts_with PNG_MAGIC bs then ''png''
      else if starts_with JPEG_SOI bs then ''jpg''
      else if starts_with GIF_HEADER bs then ''gif''
      else if tag_at 8 WEBP_TAG bs then ''webp'' else ''png'')"
proof -
  from twelve_bytes [OF assms] obtain b0 b1 b2 b3 b4 b5 b6 b7 b8 b9 b10 b11 r
    where bs: "bs = b0 # b1 # b2 # b3 # b4 # b5 # b6 # b7 # b8 # b9 # b10 # b11 # r" by blast
  show ?thesis unfolding bs by (simp add: detectImageFormat_def sig_defs)
qed

lemma detect_short: "length bs < 12 \<Longrightarrow> detectImageFormat (Some bs) = ''png''"
  by (simp add: detectImageFormat_def)

lemma png_any_length: "starts_with PNG_MAGIC bs \<Longrightarrow> detectImageFormat (Some bs) = ''png''"
  by (cases "12 \<le> length bs") (simp_all add: detect_long detect_short)

lemma webp_tag_length: "tag_at 8 WEBP_TAG bs \<Longrightarrow> 12 \<le> length bs"
proof -
  assume "tag_at 8 WEBP_TAG bs"
  then have "length (take (length WEBP_TAG) (drop 8 bs)) = length WEBP_TAG"
    by (simp only: tag_at_def)
  then show "12 \<le> length bs" by (simp add: WEBP_TAG_def)
qed

lemma detect_leading_bytes: "detectImageFormat (Some bs) = detectImageFormat (Some (take 12 bs))"
  by (simp add: detectImageFormat_def)

text \<open>
  C7, as stated: every byte array that starts with the JPEG SOI marker yields
  \<^verbatim>\<open>"jpg"\<close>. The two-byte array \<^verbatim>\<open>FF D8\<close> starts with the marker and yields \<^verbatim>\<open>"png"\<close>,
  because an array of fewer than twelve bytes is never inspected.
\<close>

theorem detectImageFormat_short_jpeg_counterexample:
  "starts_with JPEG_SOI [0xFF, 0xD8] \<and> detectImageFormat (Some [0xFF, 0xD8]) \<noteq> ''jpg''"
  by (simp add: detectImageFormat_def sig_defs)

text \<open>A WEBP tag at offset 8 does not decide the format either when one of the three
  leading signatures is present: the earlier test wins.\<close>

lemma detectImageFormat_webp_tag_after_jpeg:
  "tag_at 8 WEBP_TAG [0xFF, 0xD8, 0, 0, 0, 0, 0, 0, 0x57, 0x45, 0x42, 0x50]
   \<and> detectImageFormat (Some [0xFF, 0xD8, 0, 0, 0, 0, 0, 0, 0x57, 0x45, 0x42, 0x50]) = ''jpg''"
  by (simp add: detectImageFormat_def sig_defs)

text \<open>
  C7, as amended. The format is a function of the first twelve bytes alone (the function
  has no other input, so no declared format can influence it). Bytes starting
  \<^verbatim>\<open>89 50 4E 47\<close> yield \<^verbatim>\<open>"png"\<close>; on an array of at least twelve bytes, the JPEG SOI
  marker \<^verbatim>\<open>FF D8\<close> yields \<^verbatim>\<open>"jpg"\<close> and the header \<^verbatim>\<open>GIF\<close> yields \<^verbatim>\<open>"gif"\<close>; the tag
  \<^verbatim>\<open>WEBP\<close> at offset 8 yields \<^verbatim>\<open>"webp"\<close> when the array starts with none of the three
  other signatures.
\<close>

theorem detectImageFormat_by_leading_bytes:
  "detectImageFormat (Some bs) = detectImageFormat (Some (take 12 bs))
   \<and> (starts_with PNG_MAGIC bs \<longrightarrow> detectImageFormat (Some bs) = ''png'')
   \<and> (12 \<le> length bs \<and> starts_with JPEG_SOI bs \<longrightarrow> detectImageFormat (Some bs) = ''jpg'')
   \<and> (12 \<le> length bs \<and> starts_with GIF_HEADER bs \<longrightarrow> detectImageFormat (Some bs) = ''gif'')
   \<and> (tag_at 8 WEBP_TAG bs \<and> \<not> starts_with PNG_MAGIC bs \<and> \<not> starts_with JPEG_SOI bs
        \<and> \<not> starts_with GIF_HEADER bs \<longrightarrow> detectImageFormat (Some bs) = ''webp'')"
proof (intro conjI impI)
  show "detectImageFormat (Some bs) = detectImageFormat (Some (take 12 bs))"
    by (rule detect_leading_bytes)
next
  assume "starts_with PNG_MAGIC bs"
  then show "detectImageFormat (Some bs) = ''png''" by (rule png_any_length)
next
  assume "12 \<le> length bs \<and> starts_with JPEG_SOI bs"
  then show "detectImageFormat (Some bs) = ''jpg''" by (simp add: detect_long jpeg_not_png)
next
  assume "12 \<le> length bs \<and> starts_with GIF_HEADER bs"
  then show "detectImageFormat (Some bs) = ''gif''"
    by (simp add: detect_long gif_not_png gif_not_jpeg)
next
  assume a: "tag_at 8 WEBP_TAG bs \<and> \<not> starts_with PNG_MAGIC bs \<and> \<not> starts_with JPEG_SOI bs
        \<and> \<not> starts_with GIF_HEADER bs"
  then have "12 \<le> length bs" by (simp add: webp_tag_length)
  with a show "detectImageFormat (Some bs) = ''webp''" by (simp add: detect_long)
qed

theorem detectImageFormat_by_leading_bytes_witness:
  "detectImageFormat (Some [0x89, 0x50, 0x4E, 0x47]) = ''png''
   \<and> detectImageFormat (Some [0xFF, 0xD8, 0xFF, 0xE0, 0, 0x10, 0x4A, 0x46, 0x49, 0x46, 0, 1, 1]) = ''jpg''
   \<and> detectImageFormat (Some [0x47, 0x49, 0x46, 0x38, 0x39, 0x61, 1, 0, 1, 0, 0, 0]) = ''gif''
   \<and> detectImageFormat
        (Some [0x52, 0x49, 0x46, 0x46, 0x24, 0, 0, 0, 0x57, 0x45, 0x42, 0x50, 0x56, 0x50]) = ''webp''"
proof -
  have 1: "starts_with PNG_MAGIC [0x89, 0x50, 0x4E, 0x47]"
    by (simp add: sig_defs)
  have 2: "12 \<le> length [0xFF, 0xD8, 0xFF, 0xE0, 0, 0x10, 0x4A, 0x46, 0x49, 0x46, 0, 1, 1 :: byte]
      \<and> starts_with JPEG_SOI [0xFF, 0xD8, 0xFF, 0xE0, 0, 0x10, 0x4A, 0x46, 0x49, 0x46, 0, 1, 1]"
    by (simp add: sig_defs)
  have 3: "12 \<le> length [0x47, 0x49, 0x46, 0x38, 0x39, 0x61, 1, 0, 1, 0, 0, 0 :: byte]
      \<and> starts_with GIF_HEADER [0x47, 0x49, 0x46, 0x38, 0x39, 0x61, 1, 0, 1, 0, 0, 0]"
    by (simp add: sig_defs)
  have 4: "tag_at 8 WEBP_TAG [0x52, 0x49, 0x46, 0x46, 0x24, 0, 0, 0, 0x57, 0x45, 0x42, 0x50, 0x56, 0x50]
      \<and> \<not> starts_with PNG_MAGIC [0x52, 0x49, 0x46, 0x46, 0x24, 0, 0, 0, 0x57, 0x45, 0x42, 0x50, 0x56, 0x50]
      \<and> \<not> starts_with JPEG_SOI [0x52, 0x49, 0x46, 0x46, 0x24, 0, 0, 0, 0x57, 0x45, 0x42, 0x50, 0x56, 0x50]
      \<and> \<not> starts_with GIF_HEADER [0x52, 0x49, 0x46, 0x46, 0x24, 0, 0, 0, 0x57, 0x45, 0x42, 0x50, 0x56, 0x50]"
    by (simp add: sig_defs)
  note t = detectImageFormat_by_leading_bytes [THEN conjunct2]
  show ?thesis
    by (intro conjI
          t [THEN conjunct1, THEN mp, OF 1]
          t [THEN conjunct2, THEN conjunct1, THEN mp, OF 2]
          t [THEN conjunct2, THEN conjunct2, THEN conjunct1, THEN mp, OF 3]
          t [THEN conjunct2, THEN conjunct2, THEN conjunct2, THEN mp, OF 4])
qed

text \<open>
  C10. A byte array shorter than twelve bytes yields \<^verbatim>\<open>"png"\<close> whatever it holds, a
  JPEG SOI marker or a GIF header included, and so does an array of twelve bytes or
  more that carries none of the four signatures.
\<close>

theorem detectImageFormat_defaults_to_png:
  "(length bs < 12 \<longrightarrow> detectImageFormat (Some bs) = ''png'')
   \<and> (12 \<le> length bs \<and> \<not> starts_with PNG_MAGIC bs \<and> \<not> starts_with JPEG_SOI bs
        \<and> \<not> starts_with GIF_HEADER bs \<and> \<not> tag_at 8 WEBP_TAG bs
      \<longrightarrow> detectImageFormat (Some bs) = ''png'')"
  by (simp add: detect_long detect_short)

theorem detectImageFormat_defaults_to_png_witness:
  "starts_with JPEG_SOI [0xFF, 0xD8, 0xFF, 0xE0, 0, 0x10, 0x4A, 0x46, 0x49, 0x46, 0]
   \<and> detectImageFormat (Some [0xFF, 0xD8, 0xFF, 0xE0, 0, 0x10, 0x4A, 0x46, 0x49, 0x46, 0]) = ''png''
   \<and> starts_with GIF_HEADER [0x47, 0x49, 0x46, 0x38, 0x39, 0x61]
   \<and> detectImageFormat (Some [0x47, 0x49, 0x46, 0x38, 0x39, 0x61]) = ''png''
   \<and> detectImageFormat (Some [0x42, 0x4D, 0, 0, 0, 0, 0, 0, 0, 0, 0, 0, 0, 0]) = ''png''"
proof -
  have 1: "length [0xFF, 0xD8, 0xFF, 0xE0, 0, 0x10, 0x4A, 0x46, 0x49, 0x46, 0 :: byte] < 12"
    by simp
  have 2: "length [0x47, 0x49, 0x46, 0x38, 0x39, 0x61 :: byte] < 12"
    by simp
  have 3: "12 \<le> length [0x42, 0x4D, 0, 0, 0, 0, 0, 0, 0, 0, 0, 0, 0, 0 :: byte]
      \<and> \<not> starts_with PNG_MAGIC [0x42, 0x4D, 0, 0, 0, 0, 0, 0, 0, 0, 0, 0, 0, 0]
      \<and> \<not> starts_with JPEG_SOI [0x42, 0x4D, 0, 0, 0, 0, 0, 0, 0, 0, 0, 0, 0, 0]
      \<and> \<not> starts_with GIF_HEADER [0x42, 0x4D, 0, 0, 0, 0, 0, 0, 0, 0, 0, 0, 0, 0]
      \<and> \<not> tag_at 8 WEBP_TAG [0x42, 0x4D, 0, 0, 0, 0, 0, 0, 0, 0, 0, 0, 0, 0]"
    by (simp add: sig_defs)
  have s1: "starts_with JPEG_SOI [0xFF, 0xD8, 0xFF, 0xE0, 0, 0x10, 0x4A, 0x46, 0x49, 0x46, 0]"
    by (simp add: sig_defs)
  have s2: "starts_with GIF_HEADER [0x47, 0x49, 0x46, 0x38, 0x39, 0x61]"
    by (simp add: sig_defs)
  note t = detectImageFormat_defaults_to_png
  show ?thesis
    by (intro conjI s1 s2
          t [THEN conjunct1, THEN mp, OF 1]
          t [THEN conjunct1, THEN mp, OF 2]
          t [THEN conjunct2, THEN mp, OF 3])
qed

section \<open>Properties of the node serializer\<close>

declare extractDesignNode.simps [simp del]




lemma extract_fields:
  "extractDesignNode node depth = Inr s \<Longrightarrow> ownFields node = Inr (snap_fields s)"
  by (subst (asm) extractDesignNode.simps) (auto split: sum.splits if_splits option.splits)






text \<open>The fields that the serializer sets on a node, by name.\<close>

lemma baseFields_keys:
  "baseFields node = Inr base \<Longrightarrow>
     map fst base =
       [''id'', ''name'', ''type'', ''visible'', ''opacity'', ''blendMode'', ''locked'', ''x'', ''y'',
        ''width'', ''height'', ''constraintHorizontal'', ''constraintVertical'', ''fills'', ''strokes'',
        ''strokeWeight'', ''strokeAlign'', ''dashPattern'', ''effects'', ''isMask'']"
  by (auto simp: baseFields_def Let_def split: sum.splits)

lemma has_field_iff: "has_field s k \<longleftrightarrow> k \<in> set (map fst (snap_fields s))"
  by (simp add: has_field_def map_of_eq_None_iff)

lemma other_blocks_keys:
  "set (map fst (autoLayoutFields node @ textFields node @ componentFields node))
     \<subseteq> {''autoLayout'', ''characters'', ''textStyle'', ''componentId''}"
  by (auto simp: autoLayoutFields_def textFields_def componentFields_def Let_def)

lemma radius_field_iff:
  assumes "extractDesignNode node depth = Inr s"
    and "k \<in> {''cornerRadius'', ''topLeftRadius'', ''topRightRadius'', ''bottomRightRadius'',
        ''bottomLeftRadius''}"
  shows "has_field s k \<longleftrightarrow> k \<in> set (map fst (cornerRadiusFields node))"
proof -
  from extract_fields [OF assms(1)] obtain base where
    base: "baseFields node = Inr base" and
    fs: "snap_fields s = base @ cornerRadiusFields node @ autoLayoutFields node @ textFields node
           @ componentFields node"
    by (auto simp: ownFields_def split: sum.splits)
  have keys: "set (map fst (snap_fields s)) =
      set (map fst base) \<union> set (map fst (cornerRadiusFields node))
      \<union> set (map fst (autoLayoutFields node @ textFields node @ componentFields node))"
    unfolding fs by auto
  have nb: "k \<notin> set (map fst base)"
    unfolding baseFields_keys [OF base] using assms(2) by auto
  have no: "k \<notin> {''autoLayout'', ''characters'', ''textStyle'', ''componentId''}"
    using assms(2) by auto
  with other_blocks_keys [of node]
  have no': "k \<notin> set (map fst (autoLayoutFields node @ textFields node @ componentFields node))"
    by blast
  show ?thesis unfolding has_field_iff keys using nb no' by blast
qed

lemma cornerRadiusFields_keys:
  "map fst (cornerRadiusFields node) =
     (if typeof (nget node ''cornerRadius'') = ''number'' then [''cornerRadius'']
      else if nget node ''cornerRadius'' = JUndefined \<or> nget node ''cornerRadius'' = JNull
              \<or> typeof (nget node ''cornerRadius'') = ''symbol'' then []
      else [''topLeftRadius'', ''topRightRadius'', ''bottomRightRadius'', ''bottomLeftRadius''])"
  by (cases "nget node ''cornerRadius''") (simp_all add: cornerRadiusFields_def safe_def Let_def)

text \<open>
  What the serializer does with the corner radius. A numeric \<^verbatim>\<open>cornerRadius\<close> gives
  the uniform field alone; a missing one, \<^verbatim>\<open>null\<close> or a Symbol (so \<^verbatim>\<open>figma.mixed\<close>)
  gives no radius field at all, since \<^verbatim>\<open>safe\<close> has turned it into \<^verbatim>\<open>null\<close> before the
  test \<^verbatim>\<open>cr !== null\<close>; any other value gives the four per-corner fields. So the two forms
  never occur together.
\<close>

lemma corner_radius_fields:
  assumes "extractDesignNode node depth = Inr s"
  shows "(typeof (nget node ''cornerRadius'') = ''number'' \<longrightarrow>
            has_field s ''cornerRadius'' \<and> \<not> has_field s ''topLeftRadius''
          \<and> \<not> has_field s ''topRightRadius'' \<and> \<not> has_field s ''bottomRightRadius''
          \<and> \<not> has_field s ''bottomLeftRadius'')
       \<and> (nget node ''cornerRadius'' = JUndefined \<or> nget node ''cornerRadius'' = JNull
            \<or> typeof (nget node ''cornerRadius'') = ''symbol'' \<longrightarrow>
            \<not> has_field s ''cornerRadius'' \<and> \<not> has_field s ''topLeftRadius''
          \<and> \<not> has_field s ''topRightRadius'' \<and> \<not> has_field s ''bottomRightRadius''
          \<and> \<not> has_field s ''bottomLeftRadius'')
       \<and> \<not> (has_field s ''cornerRadius''
             \<and> (has_field s ''topLeftRadius'' \<or> has_field s ''topRightRadius''
                 \<or> has_field s ''bottomRightRadius'' \<or> has_field s ''bottomLeftRadius''))"
proof -
  note r = radius_field_iff [OF assms]
  have 1: "has_field s ''cornerRadius'' \<longleftrightarrow> ''cornerRadius'' \<in> set (map fst (cornerRadiusFields node))"
    by (rule r) simp
  have 2: "has_field s ''topLeftRadius'' \<longleftrightarrow> ''topLeftRadius'' \<in> set (map fst (cornerRadiusFields node))"
    by (rule r) simp
  have 3: "has_field s ''topRightRadius'' \<longleftrightarrow> ''topRightRadius'' \<in> set (map fst (cornerRadiusFields node))"
    by (rule r) simp
  have 4: "has_field s ''bottomRightRadius'' \<longleftrightarrow> ''bottomRightRadius'' \<in> set (map fst (cornerRadiusFields node))"
    by (rule r) simp
  have 5: "has_field s ''bottomLeftRadius'' \<longleftrightarrow> ''bottomLeftRadius'' \<in> set (map fst (cornerRadiusFields node))"
    by (rule r) simp
  show ?thesis unfolding 1 2 3 4 5 cornerRadiusFields_keys by auto
qed

text \<open>
  C4, on the rectangle \<^const>\<open>mixedCornerRect\<close>, whose \<^verbatim>\<open>cornerRadius\<close> is
  \<^verbatim>\<open>figma.mixed\<close> and whose four corner radii are 4, 8, 0 and 2: the serialized node has
  neither the uniform field nor any of the four per-corner fields.
\<close>

theorem mixed_corner_radius_drops_all_radius_fields:
  "nget mixedCornerRect ''cornerRadius'' = figma_mixed
   \<and> cornerRadiusFields mixedCornerRect = []
   \<and> (case extractDesignNode mixedCornerRect 0 of
        Inl e \<Rightarrow> False
      | Inr s \<Rightarrow> \<not> has_field s ''cornerRadius'' \<and> \<not> has_field s ''topLeftRadius''
                \<and> \<not> has_field s ''topRightRadius'' \<and> \<not> has_field s ''bottomRightRadius''
                \<and> \<not> has_field s ''bottomLeftRadius'')"
proof -
  have m: "nget mixedCornerRect ''cornerRadius'' = figma_mixed"
    by (simp add: mixedCornerRect_def nget_def)
  have c: "cornerRadiusFields mixedCornerRect = []"
    by (simp add: cornerRadiusFields_def m figma_mixed_def safe_def)
  have "\<exists>base. ownFields mixedCornerRect = Inr base"
    by (simp add: mixedCornerRect_def ownFields_def baseFields_def nget_def safe_def safeArr_def)
  then have "\<exists>s. extractDesignNode mixedCornerRect 0 = Inr s"
    by (subst extractDesignNode.simps) (auto simp: mixedCornerRect_def)
  then obtain s where s: "extractDesignNode mixedCornerRect 0 = Inr s" ..
  from corner_radius_fields [OF s] m
  have "\<not> has_field s ''cornerRadius'' \<and> \<not> has_field s ''topLeftRadius''
      \<and> \<not> has_field s ''topRightRadius'' \<and> \<not> has_field s ''bottomRightRadius''
      \<and> \<not> has_field s ''bottomLeftRadius''"
    by (simp add: figma_mixed_def)
  with m c show ?thesis by (simp add: s)
qed

section \<open>Properties of the asset collector\<close>

declare collectImageAssets.simps [simp del]

text \<open>The walk as a whole: each of the three early returns gives the accumulator back
  as it is; when none of them applies, the walk is the fills, the vector test, the
  composite test and then the children in order.\<close>

lemma collect_returns:
  "depth > MAX_IMAGE_SCAN_DEPTH
     \<or> totalCount c \<ge> MAX_IMAGE_ASSETS + MAX_VECTOR_ASSETS + MAX_COMPOSITE_ASSETS
     \<or> safeBool (nget node ''visible'') (JBool True) = JBool False
   \<Longrightarrow> collectImageAssets node depth c = c"
  by (subst collectImageAssets.simps) auto

lemma collect_proceeds:
  assumes "\<not> (depth > MAX_IMAGE_SCAN_DEPTH
     \<or> totalCount c \<ge> MAX_IMAGE_ASSETS + MAX_VECTOR_ASSETS + MAX_COMPOSITE_ASSETS
     \<or> safeBool (nget node ''visible'') (JBool True) = JBool False)"
  shows "collectImageAssets node depth c =
     fold (\<lambda>ch acc. collectImageAssets ch (depth + 1) acc)
       (case node_children node of None \<Rightarrow> [] | Some cs \<Rightarrow> cs)
       (collectComposite node depth (collectVector node
          (fold (collectFill node) (elems (safeArr (safe (nget node ''fills'') JUndefined))) c)))"
  using assms by (subst collectImageAssets.simps) (simp add: Let_def split: option.splits)

text \<open>The guard on invisible nodes: a call of the collector on a node whose \<^verbatim>\<open>visible\<close>
  property normalizes to \<^verbatim>\<open>false\<close> returns the accumulator as it is, at every depth and
  for every accumulator, so the call adds nothing and does not descend.\<close>

lemma collectImageAssets_invisible_returns:
  "safeBool (nget node ''visible'') (JBool True) = JBool False \<Longrightarrow>
     collectImageAssets node depth c = c"
  by (simp add: collect_returns)

lemma collectImageAssets_invisible_example:
  "collectImageAssets hiddenGroup 3 (collectWalk sharedImageNode) = collectWalk sharedImageNode
   \<and> hashKeys (collectWalk hiddenGroup) = []
   \<and> hashKeys (collectWalk shownGroup) = [''h0'', ''h1'']"
proof -
  have 1: "safeBool (nget hiddenGroup ''visible'') (JBool True) = JBool False"
    by (simp add: hiddenGroup_def nget_def safeBool_def safe_def)
  have 2: "hashKeys (collectWalk shownGroup) = [''h0'', ''h1'']"
    by code_simp
  have 3: "hashKeys (collectWalk hiddenGroup) = []"
    by (simp add: collectWalk_def collectImageAssets_invisible_returns [OF 1]
          hashKeys_def initialCollected_def)
  show ?thesis by (intro conjI 2 3 collectImageAssets_invisible_returns [OF 1])
qed

text \<open>
  C6. The guard covers the call on the invisible node itself, not the collector as a
  whole. The composite test of a visible container, \<^verbatim>\<open>subtreeHasImage\<close>, reads the fills
  of the container's descendants, five levels deep, and has no visibility test. In a
  visible frame whose visible instance \<^verbatim>\<open>9:2\<close> holds one layer \<^verbatim>\<open>9:3\<close>, invisible and
  with an image fill, the invisible layer is scanned and it alone makes the instance a
  composite asset, which the exporter then renders; the layer's own image is not
  collected. With the fill taken off the invisible layer, nothing is collected.
\<close>

theorem hidden_image_layer_makes_composite:
  "safeBool (nget hiddenAvatarLayer ''visible'') (JBool True) = JBool False
   \<and> subtreeHasImage hiddenAvatarLayer 1
   \<and> hashKeys (collectWalk (avatarFrame hiddenAvatarLayer)) = []
   \<and> map entry_nodeId (compositeNodes (collectWalk (avatarFrame hiddenAvatarLayer))) = [''9:2'']
   \<and> totalCount (collectWalk (avatarFrame hiddenAvatarLayer)) = 1
   \<and> map asset_id (exportComposites anyRenderer (collectWalk (avatarFrame hiddenAvatarLayer)))
       = [''composite_9:2'']
   \<and> safeBool (nget hiddenPlainLayer ''visible'') (JBool True) = JBool False
   \<and> map entry_nodeId (compositeNodes (collectWalk (avatarFrame hiddenPlainLayer))) = []
   \<and> totalCount (collectWalk (avatarFrame hiddenPlainLayer)) = 0"
  by code_simp

text \<open>Each step of the walk leaves the keys of \<^verbatim>\<open>imageHashes\<close> as they are or appends
  one new key, which is not a name that the dictionary inherits.\<close>

lemma hasImageHash_iff:
  "hasImageHash c h \<longleftrightarrow> h \<in> set (hashKeys c) \<or> h \<in> set OBJECT_PROTOTYPE_NAMES"
proof (cases "map_of (imageHashes c) h")
  case None
  then have "h \<notin> set (hashKeys c)" by (simp add: hashKeys_def map_of_eq_None_iff)
  with None show ?thesis by (simp add: hasImageHash_def)
next
  case (Some info)
  then have "(h, info) \<in> set (imageHashes c)" by (rule map_of_SomeD)
  then have "h \<in> set (hashKeys c)" by (force simp: hashKeys_def)
  with Some show ?thesis by (simp add: hasImageHash_def)
qed

lemma collectFill_keys:
  "hashKeys (collectFill node f c) = hashKeys c
   \<or> (\<exists>h. h \<notin> set (hashKeys c) \<and> h \<notin> set OBJECT_PROTOTYPE_NAMES
          \<and> hashKeys (collectFill node f c) = hashKeys c @ [h])"
proof (cases "isImageFill f \<and> str_of (safeStr (jsget f ''imageHash'') (JStr '''')) \<noteq> []
      \<and> \<not> hasImageHash c (str_of (safeStr (jsget f ''imageHash'') (JStr '''')))")
  case True
  then have "hashKeys (collectFill node f c)
      = hashKeys c @ [str_of (safeStr (jsget f ''imageHash'') (JStr ''''))]"
    by (simp add: collectFill_def hashKeys_def Let_def)
  with True show ?thesis by (auto simp: hasImageHash_iff)
next
  case False
  then have "collectFill node f c = c" by (auto simp: collectFill_def Let_def)
  then show ?thesis by simp
qed

lemma collectFill_distinct: "distinct (hashKeys c) \<Longrightarrow> distinct (hashKeys (collectFill node f c))"
  using collectFill_keys [of node f c] by auto

lemma collectFill_mono: "set (hashKeys c) \<subseteq> set (hashKeys (collectFill node f c))"
  using collectFill_keys [of node f c] by auto

lemma collectFill_inherited:
  "h \<in> set OBJECT_PROTOTYPE_NAMES \<Longrightarrow> h \<notin> set (hashKeys c)
     \<Longrightarrow> h \<notin> set (hashKeys (collectFill node f c))"
  using collectFill_keys [of node f c] by auto

lemma collectVector_keys [simp]: "hashKeys (collectVector node c) = hashKeys c"
  by (simp add: collectVector_def hashKeys_def Let_def)

lemma collectComposite_keys [simp]: "hashKeys (collectComposite node depth c) = hashKeys c"
  by (simp add: collectComposite_def hashKeys_def Let_def)

lemma fold_collectFill_distinct:
  "distinct (hashKeys c) \<Longrightarrow> distinct (hashKeys (fold (collectFill node) fs c))"
  by (induction fs arbitrary: c) (simp_all add: collectFill_distinct)

lemma fold_collectFill_mono: "set (hashKeys c) \<subseteq> set (hashKeys (fold (collectFill node) fs c))"
proof (induction fs arbitrary: c)
  case Nil
  show ?case by simp
next
  case (Cons f fs)
  from collectFill_mono [of c node f] Cons [of "collectFill node f c"] show ?case by auto
qed

lemma fold_collectFill_inherited:
  "h \<in> set OBJECT_PROTOTYPE_NAMES \<Longrightarrow> h \<notin> set (hashKeys c)
     \<Longrightarrow> h \<notin> set (hashKeys (fold (collectFill node) fs c))"
  by (induction fs arbitrary: c) (simp_all add: collectFill_inherited)

lemma collectFill_adds:
  assumes "isImageFill f" "jsget f ''imageHash'' = JStr h" "h \<notin> set OBJECT_PROTOTYPE_NAMES"
  shows "h \<in> set (hashKeys (collectFill node f c))"
proof (cases "hasImageHash c h")
  case True
  with assms(3) have "h \<in> set (hashKeys c)" by (simp add: hasImageHash_iff)
  with collectFill_mono [of c node f] show ?thesis by blast
next
  case False
  from assms(1,2) have ne: "h \<noteq> []" by (auto simp: isImageFill_def)
  have s: "str_of (safeStr (jsget f ''imageHash'') (JStr '''')) = h"
    by (simp add: assms(2) safeStr_def safe_def)
  from assms(1) False ne show ?thesis
    by (simp add: collectFill_def Let_def s hashKeys_def)
qed

lemma fold_collectFill_adds:
  "f \<in> set fs \<Longrightarrow> isImageFill f \<Longrightarrow> jsget f ''imageHash'' = JStr h
     \<Longrightarrow> h \<notin> set OBJECT_PROTOTYPE_NAMES
     \<Longrightarrow> h \<in> set (hashKeys (fold (collectFill node) fs c))"
proof (induction fs arbitrary: c)
  case Nil
  then show ?case by simp
next
  case (Cons g fs)
  show ?case
  proof (cases "f = g")
    case True
    with Cons.prems have "h \<in> set (hashKeys (collectFill node g c))"
      by (simp add: collectFill_adds)
    with fold_collectFill_mono [of "collectFill node g c" node fs] show ?thesis by auto
  next
    case False
    with Cons.prems have "f \<in> set fs" by simp
    from Cons.IH [OF this Cons.prems(2,3,4)] show ?thesis by simp
  qed
qed

lemma collect_distinct:
  "distinct (hashKeys c) \<Longrightarrow> distinct (hashKeys (collectImageAssets node depth c))"
proof (induction node depth c rule: collectImageAssets.induct)
  case (1 node depth c)
  show ?case
  proof (cases "depth > MAX_IMAGE_SCAN_DEPTH
        \<or> totalCount c \<ge> MAX_IMAGE_ASSETS + MAX_VECTOR_ASSETS + MAX_COMPOSITE_ASSETS
        \<or> safeBool (nget node ''visible'') (JBool True) = JBool False")
    case True
    with "1.prems" show ?thesis by (simp add: collect_returns)
  next
    case False
    let ?c3 = "collectComposite node depth (collectVector node
          (fold (collectFill node) (elems (safeArr (safe (nget node ''fills'') JUndefined))) c))"
    let ?cs = "case node_children node of None \<Rightarrow> [] | Some cs \<Rightarrow> cs"
    have d3: "distinct (hashKeys ?c3)"
      using "1.prems" by (simp add: fold_collectFill_distinct)
    have "distinct (hashKeys (fold (\<lambda>ch acc. collectImageAssets ch (depth + 1) acc) ?cs ?c3))"
    proof (rule fold_invariant [where Q = "\<lambda>x. x \<in> set ?cs" and P = "\<lambda>acc. distinct (hashKeys acc)"])
      show "distinct (hashKeys ?c3)" by (rule d3)
    next
      fix x acc
      assume x: "x \<in> set ?cs" and acc: "distinct (hashKeys acc)"
      then obtain cs where cs: "node_children node = Some cs" "x \<in> set cs"
        by (cases "node_children node") auto
      from "1.IH" [OF _ _ _ refl refl refl cs acc] False
      show "distinct (hashKeys (collectImageAssets x (depth + 1) acc))" by auto
    qed simp
    with False show ?thesis by (simp add: collect_proceeds)
  qed
qed

lemma collect_mono: "set (hashKeys c) \<subseteq> set (hashKeys (collectImageAssets node depth c))"
proof (induction node depth c rule: collectImageAssets.induct)
  case (1 node depth c)
  show ?case
  proof (cases "depth > MAX_IMAGE_SCAN_DEPTH
        \<or> totalCount c \<ge> MAX_IMAGE_ASSETS + MAX_VECTOR_ASSETS + MAX_COMPOSITE_ASSETS
        \<or> safeBool (nget node ''visible'') (JBool True) = JBool False")
    case True
    then show ?thesis by (simp add: collect_returns)
  next
    case False
    let ?c3 = "collectComposite node depth (collectVector node
          (fold (collectFill node) (elems (safeArr (safe (nget node ''fills'') JUndefined))) c))"
    let ?cs = "case node_children node of None \<Rightarrow> [] | Some cs \<Rightarrow> cs"
    have m3: "set (hashKeys c) \<subseteq> set (hashKeys ?c3)"
      by (simp add: fold_collectFill_mono)
    have "set (hashKeys c)
        \<subseteq> set (hashKeys (fold (\<lambda>ch acc. collectImageAssets ch (depth + 1) acc) ?cs ?c3))"
    proof (rule fold_invariant [where Q = "\<lambda>x. x \<in> set ?cs"
          and P = "\<lambda>acc. set (hashKeys c) \<subseteq> set (hashKeys acc)"])
      show "set (hashKeys c) \<subseteq> set (hashKeys ?c3)" by (rule m3)
    next
      fix x acc
      assume x: "x \<in> set ?cs" and a: "set (hashKeys c) \<subseteq> set (hashKeys acc)"
      then obtain cs where cs: "node_children node = Some cs" "x \<in> set cs"
        by (cases "node_children node") auto
      from "1.IH" [OF _ _ _ refl refl refl cs, of acc] False
      have "set (hashKeys acc) \<subseteq> set (hashKeys (collectImageAssets x (depth + 1) acc))" by auto
      with a show "set (hashKeys c) \<subseteq> set (hashKeys (collectImageAssets x (depth + 1) acc))"
        by blast
    qed simp
    with False show ?thesis by (simp add: collect_proceeds)
  qed
qed

text \<open>A reference that is a name inherited from \<^verbatim>\<open>Object.prototype\<close> is never
  collected: the dictionary read finds the inherited property and takes the reference
  for one that is already there.\<close>

lemma collect_inherited:
  "h \<in> set OBJECT_PROTOTYPE_NAMES \<Longrightarrow> h \<notin> set (hashKeys c)
     \<Longrightarrow> h \<notin> set (hashKeys (collectImageAssets node depth c))"
proof (induction node depth c rule: collectImageAssets.induct)
  case (1 node depth c)
  show ?case
  proof (cases "depth > MAX_IMAGE_SCAN_DEPTH
        \<or> totalCount c \<ge> MAX_IMAGE_ASSETS + MAX_VECTOR_ASSETS + MAX_COMPOSITE_ASSETS
        \<or> safeBool (nget node ''visible'') (JBool True) = JBool False")
    case True
    with "1.prems" show ?thesis by (simp add: collect_returns)
  next
    case False
    let ?c3 = "collectComposite node depth (collectVector node
          (fold (collectFill node) (elems (safeArr (safe (nget node ''fills'') JUndefined))) c))"
    let ?cs = "case node_children node of None \<Rightarrow> [] | Some cs \<Rightarrow> cs"
    have n3: "h \<notin> set (hashKeys ?c3)"
      using "1.prems" by (simp add: fold_collectFill_inherited)
    have "h \<notin> set (hashKeys (fold (\<lambda>ch acc. collectImageAssets ch (depth + 1) acc) ?cs ?c3))"
    proof (rule fold_invariant [where Q = "\<lambda>x. x \<in> set ?cs"
          and P = "\<lambda>acc. h \<notin> set (hashKeys acc)"])
      show "h \<notin> set (hashKeys ?c3)" by (rule n3)
    next
      fix x acc
      assume x: "x \<in> set ?cs" and acc: "h \<notin> set (hashKeys acc)"
      then obtain cs where cs: "node_children node = Some cs" "x \<in> set cs"
        by (cases "node_children node") auto
      from "1.IH" [OF _ _ _ refl refl refl cs "1.prems"(1) acc] False
      show "h \<notin> set (hashKeys (collectImageAssets x (depth + 1) acc))" by auto
    qed simp
    with False show ?thesis by (simp add: collect_proceeds)
  qed
qed

lemma inherited_name_never_collected:
  "h \<in> set OBJECT_PROTOTYPE_NAMES \<Longrightarrow> h \<notin> set (hashKeys (collectWalk node))"
  unfolding collectWalk_def
  by (rule collect_inherited) (simp_all add: hashKeys_def initialCollected_def)

lemma inherited_name_example:
  "nget inheritedNameNode ''fills'' = JArr [imagePaint ''constructor'']
   \<and> hashKeys (collectWalk inheritedNameNode) = []"
  by code_simp

lemma collect_adds:
  assumes vis: "safeBool (nget node ''visible'') (JBool True) \<noteq> JBool False"
    and d: "depth \<le> MAX_IMAGE_SCAN_DEPTH"
    and cap: "totalCount c < MAX_IMAGE_ASSETS + MAX_VECTOR_ASSETS + MAX_COMPOSITE_ASSETS"
    and fills: "nget node ''fills'' = JArr fs" and f: "f \<in> set fs"
    and img: "isImageFill f" "jsget f ''imageHash'' = JStr h"
    and own: "h \<notin> set OBJECT_PROTOTYPE_NAMES"
  shows "h \<in> set (hashKeys (collectImageAssets node depth c))"
proof -
  let ?c3 = "collectComposite node depth (collectVector node
          (fold (collectFill node) (elems (safeArr (safe (nget node ''fills'') JUndefined))) c))"
  let ?cs = "case node_children node of None \<Rightarrow> [] | Some cs \<Rightarrow> cs"
  have e: "elems (safeArr (safe (nget node ''fills'') JUndefined)) = fs"
    by (simp add: fills safeArr_def safe_def)
  have h3: "h \<in> set (hashKeys ?c3)"
    using f img own by (simp add: e fold_collectFill_adds)
  have "h \<in> set (hashKeys (fold (\<lambda>ch acc. collectImageAssets ch (depth + 1) acc) ?cs ?c3))"
  proof (rule fold_invariant [where Q = "\<lambda>x. True" and P = "\<lambda>acc. h \<in> set (hashKeys acc)"])
    show "h \<in> set (hashKeys ?c3)" by (rule h3)
  next
    fix x acc
    assume "h \<in> set (hashKeys acc)"
    with collect_mono [of acc x "depth + 1"]
    show "h \<in> set (hashKeys (collectImageAssets x (depth + 1) acc))" by blast
  qed simp
  with vis d cap show ?thesis by (simp add: collect_proceeds)
qed

lemma count_distinct: "distinct xs \<Longrightarrow> length (filter (\<lambda>k. k = h) xs) \<le> 1"
  by (induction xs) (auto simp: filter_empty_conv)

lemma count_distinct_mem: "distinct xs \<Longrightarrow> h \<in> set xs \<Longrightarrow> length (filter (\<lambda>k. k = h) xs) = 1"
  by (induction xs) (auto simp: filter_empty_conv)

text \<open>The order in which the exporter takes the keys is a rearrangement of the
  dictionary's entries.\<close>

lemma objectEntries_set [simp]: "set (objectEntries d) = set d"
  by (auto simp: objectEntries_def)

lemma objectEntries_length [simp]: "length (objectEntries d) = length d"
  by (simp add: objectEntries_def sum_length_filter_compl)

lemma objectEntries_distinct:
  assumes "distinct (map fst d)"
  shows "distinct (map fst (objectEntries d))"
proof -
  let ?ix = "filter (\<lambda>kv. isArrayIndex (fst kv)) d"
  let ?rest = "filter (\<lambda>kv. \<not> isArrayIndex (fst kv)) d"
  from assms have "distinct (map fst ?ix)" by (rule distinct_map_filter)
  then have 1: "distinct (map fst (sort_key (\<lambda>kv. indexValue (fst kv)) ?ix))"
    by (simp add: distinct_map)
  from assms have 2: "distinct (map fst ?rest)" by (rule distinct_map_filter)
  have 3: "set (map fst (sort_key (\<lambda>kv. indexValue (fst kv)) ?ix)) \<inter> set (map fst ?rest) = {}"
    by auto
  from 1 2 3 show ?thesis by (simp add: objectEntries_def del: set_map)
qed

lemma exportImageFill_ids:
  "length (filter (\<lambda>a. asset_id a = h) (concat (map (exportImageFill g) xs)))
     \<le> length (filter (\<lambda>k. k = h) (map fst xs))"
  by (induction xs) (auto simp: exportImageFill_def split: option.splits)

lemma exportImageFill_has:
  "(h, info) \<in> set xs \<Longrightarrow> g h = Some bytes
     \<Longrightarrow> 1 \<le> length (filter (\<lambda>a. asset_id a = h) (concat (map (exportImageFill g) xs)))"
  by (induction xs) (auto simp: exportImageFill_def split: option.splits)

lemma exportImageFills_once:
  assumes "distinct (hashKeys c)"
  shows "length (filter (\<lambda>a. asset_id a = h) (exportImageFills g c)) \<le> 1"
proof -
  let ?hashes = "objectEntries (imageHashes c)"
  let ?xs = "take (min (length ?hashes) MAX_IMAGE_ASSETS) ?hashes"
  from assms have "distinct (map fst ?hashes)"
    unfolding hashKeys_def by (rule objectEntries_distinct)
  then have "distinct (take (min (length ?hashes) MAX_IMAGE_ASSETS) (map fst ?hashes))"
    by (rule distinct_take)
  then have "distinct (map fst ?xs)" by (simp only: take_map)
  then have "length (filter (\<lambda>k. k = h) (map fst ?xs)) \<le> 1" by (rule count_distinct)
  with exportImageFill_ids [of h g ?xs] show ?thesis by (simp add: exportImageFills_def Let_def)
qed

lemma exportImageFills_exactly_once:
  assumes d: "distinct (hashKeys c)" and h: "h \<in> set (hashKeys c)"
    and n: "length (hashKeys c) \<le> MAX_IMAGE_ASSETS" and g: "g h = Some bytes"
  shows "length (filter (\<lambda>a. asset_id a = h) (exportImageFills g c)) = 1"
proof -
  let ?hashes = "objectEntries (imageHashes c)"
  from n have t: "take (min (length (imageHashes c)) MAX_IMAGE_ASSETS) ?hashes = ?hashes"
    by (simp add: hashKeys_def)
  from h obtain info where "(h, info) \<in> set (imageHashes c)"
    by (auto simp: hashKeys_def)
  then have "(h, info) \<in> set ?hashes" by simp
  from exportImageFill_has [where g = g, OF this g]
  have "1 \<le> length (filter (\<lambda>a. asset_id a = h) (exportImageFills g c))"
    by (simp add: exportImageFills_def Let_def t)
  with exportImageFills_once [OF d, of h g] show ?thesis by linarith
qed

text \<open>
  C5. In every collection walk each image reference is collected at most once, however
  many fills and however many nodes of the subtree carry it: the keys of
  \<^verbatim>\<open>imageHashes\<close> stay pairwise distinct through any call (first conjunct), so after the
  walk of a selection a reference \<open>h\<close> occurs at most once among them and the exporter
  produces at most one image-fill asset with id \<open>h\<close>. A reference \<open>h\<close> that a fill of a
  node carries (one of two fills that share it, or of more) is collected exactly once
  when the collector reaches the node, that is when the call is within the scan depth
  and below the global cap and the node is not invisible, and \<open>h\<close> is not a name
  inherited from \<^verbatim>\<open>Object.prototype\<close>; whether this node, an earlier one or a descendant
  carries it as well makes no difference. A collected reference yields exactly one
  image-fill asset when at most \<^verbatim>\<open>MAX_IMAGE_ASSETS\<close> references were collected and the
  host delivers the bytes of the image. (Image-fill assets are those of the exporter's
  first loop; the renders of composite containers are a category of their own, with ids
  prefixed \<^verbatim>\<open>composite_\<close>.)
\<close>

theorem image_reference_collected_once:
  "(distinct (hashKeys c) \<longrightarrow> distinct (hashKeys (collectImageAssets node depth c)))
   \<and> distinct (hashKeys (collectWalk node))
   \<and> length (filter (\<lambda>k. k = h) (hashKeys (collectWalk node))) \<le> 1
   \<and> length (filter (\<lambda>a. asset_id a = h) (exportImageFills getImageBytes (collectWalk node))) \<le> 1
   \<and> (distinct (hashKeys c) \<and> depth \<le> MAX_IMAGE_SCAN_DEPTH
        \<and> totalCount c < MAX_IMAGE_ASSETS + MAX_VECTOR_ASSETS + MAX_COMPOSITE_ASSETS
        \<and> safeBool (nget node ''visible'') (JBool True) \<noteq> JBool False
        \<and> nget node ''fills'' = JArr fs \<and> f \<in> set fs \<and> isImageFill f
        \<and> jsget f ''imageHash'' = JStr h \<and> h \<notin> set OBJECT_PROTOTYPE_NAMES
      \<longrightarrow> length (filter (\<lambda>k. k = h) (hashKeys (collectImageAssets node depth c))) = 1)
   \<and> (distinct (hashKeys c') \<and> h \<in> set (hashKeys c')
        \<and> length (hashKeys c') \<le> MAX_IMAGE_ASSETS \<and> getImageBytes h = Some bytes
      \<longrightarrow> length (filter (\<lambda>a. asset_id a = h) (exportImageFills getImageBytes c')) = 1)"
proof -
  have d0: "distinct (hashKeys initialCollected)"
    by (simp add: hashKeys_def initialCollected_def)
  have dw: "distinct (hashKeys (collectWalk node))"
    unfolding collectWalk_def using d0 by (rule collect_distinct)
  show ?thesis
  proof (intro conjI impI)
    assume "distinct (hashKeys c)"
    then show "distinct (hashKeys (collectImageAssets node depth c))" by (rule collect_distinct)
  next
    show "distinct (hashKeys (collectWalk node))" by (rule dw)
  next
    show "length (filter (\<lambda>k. k = h) (hashKeys (collectWalk node))) \<le> 1"
      using dw by (rule count_distinct)
  next
    show "length (filter (\<lambda>a. asset_id a = h) (exportImageFills getImageBytes (collectWalk node))) \<le> 1"
      using dw by (rule exportImageFills_once)
  next
    assume a: "distinct (hashKeys c) \<and> depth \<le> MAX_IMAGE_SCAN_DEPTH
        \<and> totalCount c < MAX_IMAGE_ASSETS + MAX_VECTOR_ASSETS + MAX_COMPOSITE_ASSETS
        \<and> safeBool (nget node ''visible'') (JBool True) \<noteq> JBool False
        \<and> nget node ''fills'' = JArr fs \<and> f \<in> set fs \<and> isImageFill f
        \<and> jsget f ''imageHash'' = JStr h \<and> h \<notin> set OBJECT_PROTOTYPE_NAMES"
    then have "h \<in> set (hashKeys (collectImageAssets node depth c))"
      by (intro collect_adds [where fs = fs and f = f]) simp_all
    moreover from a have "distinct (hashKeys (collectImageAssets node depth c))"
      by (simp add: collect_distinct)
    ultimately show "length (filter (\<lambda>k. k = h) (hashKeys (collectImageAssets node depth c))) = 1"
      by (intro count_distinct_mem)
  next
    assume a: "distinct (hashKeys c') \<and> h \<in> set (hashKeys c')
        \<and> length (hashKeys c') \<le> MAX_IMAGE_ASSETS \<and> getImageBytes h = Some bytes"
    then show "length (filter (\<lambda>a. asset_id a = h) (exportImageFills getImageBytes c')) = 1"
      by (intro exportImageFills_exactly_once [where bytes = bytes]) simp_all
  qed
qed

theorem image_reference_collected_once_witness:
  "nget sharedImageNode ''fills'' = JArr [imagePaint ''h1'', imagePaint ''h1'']
   \<and> length (filter (\<lambda>k. k = ''h1'') (hashKeys (collectImageAssets sharedImageNode 0 initialCollected))) = 1
   \<and> distinct (hashKeys (collectImageAssets sharedImageNode 0 initialCollected))
   \<and> length (filter (\<lambda>a. asset_id a = ''h1'')
        (exportImageFills anyImageBytes (collectWalk sharedImageNode))) = 1
   \<and> hashKeys (collectWalk sharedImageNode) = [''h1'']
   \<and> map asset_id (exportImageFills anyImageBytes (collectWalk sharedImageNode)) = [''h1'']"
proof -
  have 0: "nget sharedImageNode ''fills'' = JArr [imagePaint ''h1'', imagePaint ''h1'']"
    by (simp add: sharedImageNode_def nget_def)
  have 2: "distinct (hashKeys initialCollected)"
    by (simp add: hashKeys_def initialCollected_def)
  have 3: "hashKeys (collectWalk sharedImageNode) = [''h1'']"
    by code_simp
  have 4: "map asset_id (exportImageFills anyImageBytes (collectWalk sharedImageNode)) = [''h1'']"
    by code_simp
  have 1: "distinct (hashKeys initialCollected) \<and> 0 \<le> MAX_IMAGE_SCAN_DEPTH
        \<and> totalCount initialCollected < MAX_IMAGE_ASSETS + MAX_VECTOR_ASSETS + MAX_COMPOSITE_ASSETS
        \<and> safeBool (nget sharedImageNode ''visible'') (JBool True) \<noteq> JBool False
        \<and> nget sharedImageNode ''fills'' = JArr [imagePaint ''h1'', imagePaint ''h1'']
        \<and> imagePaint ''h1'' \<in> set [imagePaint ''h1'', imagePaint ''h1'']
        \<and> isImageFill (imagePaint ''h1'')
        \<and> jsget (imagePaint ''h1'') ''imageHash'' = JStr ''h1''
        \<and> ''h1'' \<notin> set OBJECT_PROTOTYPE_NAMES"
    by (simp add: sharedImageNode_def nget_def safeBool_def safe_def imagePaint_def isImageFill_def
          hashKeys_def initialCollected_def MAX_IMAGE_ASSETS_def MAX_VECTOR_ASSETS_def
          MAX_COMPOSITE_ASSETS_def OBJECT_PROTOTYPE_NAMES_def)
  have 5: "distinct (hashKeys (collectWalk sharedImageNode))
        \<and> ''h1'' \<in> set (hashKeys (collectWalk sharedImageNode))
        \<and> length (hashKeys (collectWalk sharedImageNode)) \<le> MAX_IMAGE_ASSETS
        \<and> anyImageBytes ''h1'' = Some [0x89, 0x50, 0x4E, 0x47]"
    by (simp add: 3 MAX_IMAGE_ASSETS_def anyImageBytes_def)
  note t = image_reference_collected_once
    [where node = sharedImageNode and h = "''h1''" and f = "imagePaint ''h1''"
       and fs = "[imagePaint ''h1'', imagePaint ''h1'']" and c = initialCollected and depth = 0
       and c' = "collectWalk sharedImageNode" and getImageBytes = anyImageBytes
       and bytes = "[0x89, 0x50, 0x4E, 0x47]"]
  show ?thesis
    by (intro conjI 0 3 4
          t [THEN conjunct2, THEN conjunct2, THEN conjunct2, THEN conjunct2, THEN conjunct1,
             THEN mp, OF 1]
          t [THEN conjunct2, THEN conjunct2, THEN conjunct2, THEN conjunct2, THEN conjunct2,
             THEN mp, OF 5]
          t [THEN conjunct1, THEN mp, OF 2])
qed

text \<open>Two fills of one node that share a reference produce no image-fill asset when
  the node is invisible, since the guard on invisible nodes returns before the fills are
  read, and none when the host has no image for the reference, since the exporter leaves
  that reference out.\<close>

theorem two_fills_of_hidden_node_counterexample:
  "nget hiddenSharedImageNode ''fills'' = JArr [imagePaint ''h1'', imagePaint ''h1'']
   \<and> hashKeys (collectWalk hiddenSharedImageNode) = []
   \<and> exportImageFills anyImageBytes (collectWalk hiddenSharedImageNode) = []
   \<and> nget sharedImageNode ''fills'' = JArr [imagePaint ''h1'', imagePaint ''h1'']
   \<and> hashKeys (collectWalk sharedImageNode) = [''h1'']
   \<and> exportImageFills noImageBytes (collectWalk sharedImageNode) = []"
  by code_simp

section \<open>Properties of the asset exporter\<close>

text \<open>Rounding to a double: the result has the sign of the argument, is within half a
  unit in the last place of it, and does not cross 1.\<close>

lemma rne_error: "\<bar>of_int (rne y) - y\<bar> \<le> 1 / 2"
proof -
  have "of_int \<lfloor>y\<rfloor> \<le> y" "y < of_int \<lfloor>y\<rfloor> + 1" by linarith+
  then show ?thesis by (auto simp: rne_def Let_def)
qed

lemma rne_le: "y \<le> of_int N \<Longrightarrow> rne y \<le> N"
proof -
  assume y: "y \<le> of_int N"
  show ?thesis
  proof (cases "y = of_int N")
    case True
    then show ?thesis by (simp add: rne_def)
  next
    case False
    with y have "y < of_int N" by simp
    then have f: "\<lfloor>y\<rfloor> < N" by (simp add: floor_less_iff)
    have "rne y \<le> \<lfloor>y\<rfloor> + 1" by (simp add: rne_def Let_def)
    with f show ?thesis by linarith
  qed
qed

lemma rne_nonneg: "0 \<le> y \<Longrightarrow> 0 \<le> rne y"
proof -
  assume "0 \<le> y"
  then have "0 \<le> \<lfloor>y\<rfloor>" by simp
  then show ?thesis by (auto simp: rne_def Let_def)
qed

lemma fl_nonneg: "0 \<le> x \<Longrightarrow> 0 \<le> fl x"
  by (auto simp: fl_def Let_def rne_nonneg intro!: mult_nonneg_nonneg)

lemma fl_nonpos: "x \<le> 0 \<Longrightarrow> fl x \<le> 0"
proof (cases "x = 0")
  case True
  then show ?thesis by (simp add: fl_def)
next
  case False
  assume "x \<le> 0"
  with False have neg: "x < 0" by simp
  have "0 \<le> \<bar>x\<bar> / 2 powi (binade x - 52)" by simp
  then have "0 \<le> rne (\<bar>x\<bar> / 2 powi (binade x - 52))" by (rule rne_nonneg)
  then have "0 \<le> real_of_int (rne (\<bar>x\<bar> / 2 powi (binade x - 52))) * 2 powi (binade x - 52)"
    by (intro mult_nonneg_nonneg) simp_all
  with neg show ?thesis by (simp add: fl_def Let_def)
qed

lemma fl_error: "\<bar>fl x - x\<bar> \<le> 2 powi (binade x - 52) / 2"
proof (cases "x = 0")
  case True
  then show ?thesis by (simp add: fl_def)
next
  case False
  define q :: real where "q = 2 powi (binade x - 52)"
  have q: "0 < q" by (simp add: q_def)
  have "fl x - x = sgn x * ((of_int (rne (\<bar>x\<bar> / q)) - \<bar>x\<bar> / q) * q)"
    using False q by (simp add: fl_def Let_def q_def [symmetric] algebra_simps sgn_if)
  then have "\<bar>fl x - x\<bar> = \<bar>of_int (rne (\<bar>x\<bar> / q)) - \<bar>x\<bar> / q\<bar> * q"
    using False q by (simp add: abs_mult abs_sgn_eq)
  also have "\<dots> \<le> (1 / 2) * q"
    using q by (intro mult_right_mono rne_error) simp
  finally show ?thesis by (simp add: q_def)
qed

lemma binade_below_one: "\<bar>x\<bar> < 1 \<Longrightarrow> x \<noteq> 0 \<Longrightarrow> binade x \<le> - 1"
proof -
  assume a: "\<bar>x\<bar> < 1" and n: "x \<noteq> 0"
  then have "1 < 1 / \<bar>x\<bar>" by simp
  then have "2 \<le> \<lceil>1 / \<bar>x\<bar>\<rceil>" by linarith
  then have "1 \<le> nat (\<lceil>1 / \<bar>x\<bar>\<rceil> - 1)" by linarith
  from floorlog_mono [OF this, of 2] have "1 \<le> floorlog 2 (nat (\<lceil>1 / \<bar>x\<bar>\<rceil> - 1))"
    by (simp add: compute_floorlog)
  with a show ?thesis by (simp add: binade_def Let_def)
qed

lemma fl_one: "fl 1 = 1"
  by code_simp

lemma fl_le_one: "x \<le> 1 \<Longrightarrow> fl x \<le> 1"
proof -
  assume x: "x \<le> 1"
  consider "x \<le> 0" | "0 < x" "x < 1" | "x = 1" using x by linarith
  then show ?thesis
  proof cases
    case 1
    from fl_nonpos [OF this] show ?thesis by simp
  next
    case 2
    then have b: "binade x \<le> - 1" by (intro binade_below_one) auto
    define k where "k = nat (52 - binade x)"
    have q: "2 powi (binade x - 52) = 1 / (2::real) ^ k"
      using b by (simp add: power_int_def k_def field_simps)
    have "\<bar>x\<bar> / (1 / 2 ^ k) \<le> of_int (2 ^ k)"
      using 2 by (simp add: field_simps)
    then have "rne (\<bar>x\<bar> / (1 / 2 ^ k)) \<le> 2 ^ k" by (rule rne_le)
    then have "real_of_int (rne (\<bar>x\<bar> / (1 / 2 ^ k))) \<le> 2 ^ k"
      by (metis of_int_le_iff of_int_numeral of_int_power)
    then have "of_int (rne (\<bar>x\<bar> / (1 / 2 ^ k))) * (1 / 2 ^ k) \<le> (1::real)"
      by (simp add: field_simps)
    with 2 show ?thesis by (simp add: fl_def Let_def q)
  next
    case 3
    then show ?thesis by (simp add: fl_one)
  qed
qed

lemma fl_quotient_error:
  assumes "0 < a" "a < m"
  shows "\<bar>fl (a / m) - a / m\<bar> \<le> 1 / 2 ^ 54"
proof -
  have r: "0 < a / m" "a / m < 1" using assms by simp_all
  then have "binade (a / m) \<le> - 1" by (intro binade_below_one) auto
  then have "binade (a / m) - 52 \<le> - 53" by simp
  then have "(2::real) powi (binade (a / m) - 52) \<le> 2 powi (- 53)"
    by (intro power_int_increasing) simp_all
  also have "\<dots> = 1 / 2 ^ 53" by (simp add: power_int_def field_simps)
  finally have "2 powi (binade (a / m) - 52) / 2 \<le> 1 / (2::real) ^ 54" by simp
  with fl_error [of "a / m"] show ?thesis by linarith
qed

text \<open>The scale of a composite export, in terms of the longest dimension.\<close>

lemma compositeScale_eq:
  "compositeScale node =
     (if max (num_of (safeNum (nget node ''width'') (JNum 1)))
             (num_of (safeNum (nget node ''height'') (JNum 1))) > 512
      then fl (512 / max (num_of (safeNum (nget node ''width'') (JNum 1)))
                         (num_of (safeNum (nget node ''height'') (JNum 1))))
      else 1)"
  by (simp add: compositeScale_def Let_def COMPOSITE_MAX_PX_def)

lemma scale_nonneg: "0 \<le> (if m > 512 then fl (512 / m) else 1)"
  by (simp add: fl_nonneg)

lemma scale_le_one: "(if m > 512 then fl (512 / m) else 1) \<le> 1"
  by (simp add: fl_le_one)

lemma scale_error: "512 < m \<Longrightarrow> \<bar>fl (512 / m) - 512 / m\<bar> \<le> 1 / 2 ^ 54"
  by (rule fl_quotient_error) simp_all

text \<open>The quotient \<^verbatim>\<open>512 / 2000\<close> and the literal \<^verbatim>\<open>0.256\<close> are the same double, and
  the products of that double with 2000 and with 1000 round to 512 and to 256.\<close>

lemma fl_wide_scale: "fl (512 / 2000) = 4611686018427388 / 2 ^ 54"
  by code_simp

lemma fl_literal_scale: "fl 0.256 = 4611686018427388 / 2 ^ 54"
  by code_simp

lemma wide_width: "js_round (fl (2000 * (4611686018427388 / 2 ^ 54))) = 512"
  by code_simp

lemma wide_height: "js_round (fl (1000 * (4611686018427388 / 2 ^ 54))) = 256"
  by code_simp

lemma wide_scale:
  fixes w h :: real
  assumes "w = 2000" "h = 1000"
  shows "(if max w h > 512 then fl (512 / max w h) else 1) = 4611686018427388 / 2 ^ 54"
proof -
  from assms have "max w h = 2000" by simp
  then have "(if max w h > 512 then fl (512 / max w h) else 1) = fl (512 / 2000)"
    by (simp only: if_True) simp
  with fl_wide_scale show ?thesis by (simp only:)
qed

text \<open>
  C8. For a composite entry whose node has width \<open>w\<close> and height \<open>h\<close> (each 1 when the
  node has no numeric value) and longest dimension \<open>m\<close>, the scale \<open>s\<close> of the export is
  the quotient \<^verbatim>\<open>512 / m\<close> of binary64 arithmetic when \<open>m\<close> exceeds the cap of 512, and
  exactly 1 otherwise. It is never above 1, and where it is a quotient it is within
  \<open>2 ^ -54\<close> of the exact quotient. When the node can be exported, the exporter asks
  the renderer for a PNG of the node at the scale \<open>s\<close> and at no other: if that request
  fails there is no asset, and if it delivers bytes there is the one asset made of those
  bytes, with the id \<^verbatim>\<open>composite_\<close> and the node id, and with the recorded width and
  height \<^verbatim>\<open>Math.round(w * s)\<close> and \<^verbatim>\<open>Math.round(h * s)\<close>, the products being those of
  binary64 arithmetic. For 2000 by 1000 the scale is the double that the literal
  \<^verbatim>\<open>0.256\<close> denotes and the recorded dimensions are 512 by 256.
\<close>

theorem composite_export_scale:
  "(let w = num_of (safeNum (nget (entry_node e) ''width'') (JNum 1));
        h = num_of (safeNum (nget (entry_node e) ''height'') (JNum 1));
        m = max w h;
        s = (if m > 512 then fl (512 / m) else 1)
    in compositeScale (entry_node e) = s
       \<and> 0 \<le> s \<and> s \<le> 1
       \<and> (m > 512 \<longrightarrow> \<bar>s - 512 / m\<bar> \<le> 1 / 2 ^ 54)
       \<and> (truthy (nget (entry_node e) ''exportAsync'') \<longrightarrow>
            exportComposite exportAsync e =
              (case exportAsync (entry_node e) (PNG_SCALE s) of
                 None \<Rightarrow> []
               | Some bytes \<Rightarrow>
                   [\<lparr>asset_id = ''composite_'' @ entry_nodeId e,
                     asset_format = detectImageFormat (Some bytes),
                     asset_data = uint8ToBase64 bytes,
                     asset_nodeId = entry_nodeId e,
                     asset_nodeName = entry_nodeName e,
                     asset_width = js_round (fl (w * s)),
                     asset_height = js_round (fl (h * s)),
                     asset_assetType = ''image-fill'',
                     asset_filePath = None\<rparr>]))
       \<and> (w = 2000 \<and> h = 1000 \<longrightarrow>
            s = fl 0.256 \<and> s = 4611686018427388 / 2 ^ 54
            \<and> js_round (fl (w * s)) = 512 \<and> js_round (fl (h * s)) = 256))"
proof -
  define w where "w = num_of (safeNum (nget (entry_node e) ''width'') (JNum 1))"
  define h where "h = num_of (safeNum (nget (entry_node e) ''height'') (JNum 1))"
  define s where "s = (if max w h > 512 then fl (512 / max w h) else 1)"
  have cs: "compositeScale (entry_node e) = s"
    unfolding s_def w_def h_def by (rule compositeScale_eq)
  have lo: "0 \<le> s" unfolding s_def by (rule scale_nonneg)
  have hi: "s \<le> 1" unfolding s_def by (rule scale_le_one)
  have err: "max w h > 512 \<longrightarrow> \<bar>s - 512 / max w h\<bar> \<le> 1 / 2 ^ 54"
  proof
    assume a: "512 < max w h"
    then have "s = fl (512 / max w h)" by (simp add: s_def)
    with scale_error [OF a] show "\<bar>s - 512 / max w h\<bar> \<le> 1 / 2 ^ 54" by (simp only:)
  qed
  have ex: "truthy (nget (entry_node e) ''exportAsync'') \<longrightarrow>
            exportComposite exportAsync e =
              (case exportAsync (entry_node e) (PNG_SCALE s) of
                 None \<Rightarrow> []
               | Some bytes \<Rightarrow>
                   [\<lparr>asset_id = ''composite_'' @ entry_nodeId e,
                     asset_format = detectImageFormat (Some bytes),
                     asset_data = uint8ToBase64 bytes,
                     asset_nodeId = entry_nodeId e,
                     asset_nodeName = entry_nodeName e,
                     asset_width = js_round (fl (w * s)),
                     asset_height = js_round (fl (h * s)),
                     asset_assetType = ''image-fill'',
                     asset_filePath = None\<rparr>])"
    by (simp add: exportComposite_def Let_def cs w_def [symmetric] h_def [symmetric])
  have wide: "w = 2000 \<and> h = 1000 \<longrightarrow>
            s = fl 0.256 \<and> s = 4611686018427388 / 2 ^ 54
            \<and> js_round (fl (w * s)) = 512 \<and> js_round (fl (h * s)) = 256"
  proof (intro impI)
    assume a: "w = 2000 \<and> h = 1000"
    then have v: "s = 4611686018427388 / 2 ^ 54"
      unfolding s_def by (intro wide_scale) simp_all
    from a have w: "w = 2000" and h: "h = 1000" by simp_all
    show "s = fl 0.256 \<and> s = 4611686018427388 / 2 ^ 54
            \<and> js_round (fl (w * s)) = 512 \<and> js_round (fl (h * s)) = 256"
      unfolding v w h by (intro conjI fl_literal_scale [symmetric] refl wide_width wide_height)
  qed
  from cs lo hi err ex wide show ?thesis
    unfolding Let_def w_def [symmetric] h_def [symmetric] s_def [symmetric] by (intro conjI)
qed

theorem composite_export_scale_witness:
  "truthy (nget (entry_node wideInstance) ''exportAsync'')
   \<and> num_of (safeNum (nget (entry_node wideInstance) ''width'') (JNum 1)) = 2000
   \<and> num_of (safeNum (nget (entry_node wideInstance) ''height'') (JNum 1)) = 1000
   \<and> compositeScale (entry_node wideInstance) = 4611686018427388 / 2 ^ 54
   \<and> exportComposite pngRenderer wideInstance =
       [\<lparr>asset_id = ''composite_4:1'', asset_format = ''png'', asset_data = ''iVBORw=='',
         asset_nodeId = ''4:1'', asset_nodeName = ''Hero'', asset_width = 512, asset_height = 256,
         asset_assetType = ''image-fill'', asset_filePath = None\<rparr>]"
proof -
  have w: "num_of (safeNum (nget (entry_node wideInstance) ''width'') (JNum 1)) = 2000"
    and h: "num_of (safeNum (nget (entry_node wideInstance) ''height'') (JNum 1)) = 1000"
    by (simp_all add: wideInstance_def nget_def safeNum_def safe_def)
  have x: "truthy (nget (entry_node wideInstance) ''exportAsync'')"
    by (simp add: wideInstance_def nget_def)
  have b: "uint8ToBase64 [0x89, 0x50, 0x4E, 0x47] = ''iVBORw==''"
    by code_simp
  have f: "detectImageFormat (Some [0x89, 0x50, 0x4E, 0x47]) = ''png''"
    by code_simp
  have n: "entry_nodeId wideInstance = ''4:1''" "entry_nodeName wideInstance = ''Hero''"
    by (simp_all add: wideInstance_def)
  have r: "pngRenderer (entry_node wideInstance) (PNG_SCALE (4611686018427388 / 2 ^ 54))
      = Some [0x89, 0x50, 0x4E, 0x47]"
    by (simp add: pngRenderer_def)
  have v: "(if max 2000 1000 > (512::real) then fl (512 / max 2000 1000) else 1)
      = 4611686018427388 / 2 ^ 54"
    by (intro wide_scale refl)
  note t = composite_export_scale [of wideInstance pngRenderer, unfolded Let_def w h v]
  from t have s: "compositeScale (entry_node wideInstance) = 4611686018427388 / 2 ^ 54"
    by (rule conjunct1)
  from t [THEN conjunct2, THEN conjunct2, THEN conjunct2, THEN conjunct2, THEN conjunct1,
      THEN mp, OF x]
  have "exportComposite pngRenderer wideInstance =
       [\<lparr>asset_id = ''composite_4:1'', asset_format = ''png'', asset_data = ''iVBORw=='',
         asset_nodeId = ''4:1'', asset_nodeName = ''Hero'', asset_width = 512, asset_height = 256,
         asset_assetType = ''image-fill'', asset_filePath = None\<rparr>]"
    by (simp only: r option.case b f n wide_width wide_height append.simps)
  with x w h s show ?thesis by (intro conjI)
qed

text \<open>The rounding shows on a node of 644 by 0.62890625 pixels: the scale times the
  longest dimension is the double below 512, and the recorded height is 0 where exact
  arithmetic would give 1.\<close>

lemma composite_rounding_example:
  "compositeScale (entry_node thinInstance) = fl (512 / 644)
   \<and> fl (644 * compositeScale (entry_node thinInstance)) = 512 - 1 / 2 ^ 44
   \<and> fl (161 / 256 * compositeScale (entry_node thinInstance)) = 1 / 2 - 1 / 2 ^ 54
   \<and> js_round (161 / 256 * (512 / 644)) = 1
   \<and> map (\<lambda>a. (asset_id a, asset_width a, asset_height a))
        (exportComposite anyRenderer thinInstance) = [(''composite_4:2'', 512, 0)]"
  by code_simp

section \<open>Properties of the store and the relay\<close>

lemma strict_neq_of_neq: "a \<noteq> b \<Longrightarrow> strict_neq a b"
  by (cases a) simp_all

text \<open>
  C1. When a batch stamped with node id \<open>A\<close> is attached while the store holds no
  selection, or one whose node id is not \<open>A\<close>, \<^verbatim>\<open>setImages\<close> returns \<^verbatim>\<open>false\<close> and the
  state is unchanged: the stored selection with its asset map, and the files of the
  assets directory (no file is written). The handler of \<^verbatim>\<open>POST /selection/images\<close> then
  answers 409 (400 when the node id is empty) and leaves the state unchanged as well.
\<close>

theorem setImages_rejects_stale_batch:
  "current w = None \<or> (\<exists>cur. current w = Some cur \<and> nodeId cur \<noteq> A) \<Longrightarrow>
     setImages A assets w = (False, w)
   \<and> snd (post_selection_images \<lparr>batch_nodeId = A, batch_assets = Some assets\<rparr> w) = w
   \<and> status (fst (post_selection_images \<lparr>batch_nodeId = A, batch_assets = Some assets\<rparr> w))
       = (if truthy A then 409 else 400)"
  by (auto simp: setImages_def post_selection_images_def strict_neq_of_neq)

theorem setImages_rejects_stale_batch_witness:
  "setImages (JStr ''1:2'') [exampleAsset ''h1'' ''1:2''] (exampleWorld ''3:4'')
       = (False, exampleWorld ''3:4'')
   \<and> setImages (JStr ''1:2'') [exampleAsset ''h1'' ''1:2''] \<lparr>current = None, assetsDir = None\<rparr>
       = (False, \<lparr>current = None, assetsDir = None\<rparr>)
   \<and> fst (setImages (JStr ''1:2'') [exampleAsset ''h1'' ''1:2''] (exampleWorld ''1:2'')) = True"
proof -
  have 1: "current (exampleWorld ''3:4'') = None
      \<or> (\<exists>cur. current (exampleWorld ''3:4'') = Some cur \<and> nodeId cur \<noteq> JStr ''1:2'')"
    by (simp add: exampleWorld_def exampleSelection_def)
  have 2: "current \<lparr>current = None, assetsDir = None\<rparr> = None
      \<or> (\<exists>cur. current \<lparr>current = None, assetsDir = None\<rparr> = Some cur \<and> nodeId cur \<noteq> JStr ''1:2'')"
    by simp
  have 3: "fst (setImages (JStr ''1:2'') [exampleAsset ''h1'' ''1:2''] (exampleWorld ''1:2'')) = True"
    by (simp add: setImages_def exampleWorld_def exampleSelection_def writeAssets_def
          split: prod.splits)
  show ?thesis
    by (intro conjI 3
          setImages_rejects_stale_batch [OF 1, THEN conjunct1]
          setImages_rejects_stale_batch [OF 2, THEN conjunct1])
qed

lemma names_required:
  "k \<in> set REQUIRED_FIELDS \<Longrightarrow> \<exists>pre post. INVALID_SELECTION_PAYLOAD = pre @ k @ post"
proof -
  assume "k \<in> set REQUIRED_FIELDS"
  then consider "k = ''fileId''" | "k = ''nodeId''" | "k = ''metadata''"
    by (auto simp: REQUIRED_FIELDS_def)
  then show ?thesis
  proof cases
    case 1
    have "INVALID_SELECTION_PAYLOAD
        = ''Invalid payload. Required fields: '' @ ''fileId'' @ '', nodeId, metadata''"
      by (simp add: INVALID_SELECTION_PAYLOAD_def)
    with 1 show ?thesis by blast
  next
    case 2
    have "INVALID_SELECTION_PAYLOAD
        = ''Invalid payload. Required fields: fileId, '' @ ''nodeId'' @ '', metadata''"
      by (simp add: INVALID_SELECTION_PAYLOAD_def)
    with 2 show ?thesis by blast
  next
    case 3
    have "INVALID_SELECTION_PAYLOAD
        = ''Invalid payload. Required fields: fileId, nodeId, '' @ ''metadata'' @ []"
      by (simp add: INVALID_SELECTION_PAYLOAD_def)
    with 3 show ?thesis by blast
  qed
qed

text \<open>
  C9. A selection push whose body lacks one of the required fields \<^verbatim>\<open>fileId\<close>,
  \<^verbatim>\<open>nodeId\<close>, \<^verbatim>\<open>metadata\<close> is answered at once with status 400 and a JSON error whose
  message names the missing field (it lists the three required fields) and whose
  \<^verbatim>\<open>received\<close> entry lists the keys that did arrive; the state is unchanged, so no
  \<^verbatim>\<open>set\<close> takes place and no asset file is deleted. The handler has no other error
  answer: every push is answered 200, or 400 with the state unchanged.
\<close>

theorem post_selection_rejects_missing_field:
  "(k \<in> set REQUIRED_FIELDS \<and> map_of (case req_body of None \<Rightarrow> [] | Some b \<Rightarrow> b) k = None \<longrightarrow>
      post_selection req_body now w =
        (\<lparr>status = 400,
          payload = JObj [(''error'', JStr INVALID_SELECTION_PAYLOAD),
                          (''received'', JArr (map (\<lambda>kv. JStr (fst kv))
                                                (case req_body of None \<Rightarrow> [] | Some b \<Rightarrow> b)))]\<rparr>, w)
      \<and> (\<exists>pre post. INVALID_SELECTION_PAYLOAD = pre @ k @ post))
   \<and> (status (fst (post_selection req_body now w)) = 200
       \<or> status (fst (post_selection req_body now w)) = 400 \<and> snd (post_selection req_body now w) = w)"
proof (intro conjI impI)
  assume h: "k \<in> set REQUIRED_FIELDS \<and> map_of (case req_body of None \<Rightarrow> [] | Some b \<Rightarrow> b) k = None"
  then show "post_selection req_body now w =
        (\<lparr>status = 400,
          payload = JObj [(''error'', JStr INVALID_SELECTION_PAYLOAD),
                          (''received'', JArr (map (\<lambda>kv. JStr (fst kv))
                                                (case req_body of None \<Rightarrow> [] | Some b \<Rightarrow> b)))]\<rparr>, w)"
    by (auto simp: post_selection_def Let_def REQUIRED_FIELDS_def)
  from h show "\<exists>pre post. INVALID_SELECTION_PAYLOAD = pre @ k @ post"
    by (simp add: names_required)
next
  show "status (fst (post_selection req_body now w)) = 200
       \<or> status (fst (post_selection req_body now w)) = 400 \<and> snd (post_selection req_body now w) = w"
    by (simp add: post_selection_def Let_def)
qed

theorem post_selection_rejects_missing_field_witness:
  "post_selection (Some [(''fileId'', JStr ''FILE''), (''metadata'', JObj [])]) 2000 (exampleWorld ''3:4'')
     = (\<lparr>status = 400,
         payload = JObj [(''error'', JStr INVALID_SELECTION_PAYLOAD),
                         (''received'', JArr [JStr ''fileId'', JStr ''metadata''])]\<rparr>,
        exampleWorld ''3:4'')"
proof -
  have 1: "''nodeId'' \<in> set REQUIRED_FIELDS
      \<and> map_of (case Some [(''fileId'', JStr ''FILE''), (''metadata'', JObj [])] of
                  None \<Rightarrow> [] | Some b \<Rightarrow> b) ''nodeId'' = None"
    by (simp add: REQUIRED_FIELDS_def)
  from post_selection_rejects_missing_field
         [THEN conjunct1, THEN mp, OF 1, THEN conjunct1, of 2000 "exampleWorld ''3:4''"]
  show ?thesis by simp
qed

end
